theory Spec2Isabelle
  imports Complex_Main
begin

section \<open>Arrays\<close>

text \<open>
  A \<open>jax.numpy\<close> array is its shape and its elements in row-major order. An array is
  well formed when it has as many elements as its shape says. Node identifiers are
  integers. An element of a floating-point array is a finite value, an infinity or NaN,
  multiplied and added as IEEE 754 has it: zero times an infinity is NaN, opposite
  infinities add to NaN, and NaN absorbs. Finite values are taken in the reals: rounding,
  overflow and the sign of zero are left out.
\<close>

datatype 'a tensor = Tensor (shape: "nat list") (elems: "'a list")

datatype f32 = Fin real | PInf | NInf | NaN

fun fmul :: "f32 \<Rightarrow> f32 \<Rightarrow> f32" where
  "fmul (Fin a) (Fin b) = Fin (a * b)"
| "fmul (Fin a) PInf = (if a = 0 then NaN else if 0 < a then PInf else NInf)"
| "fmul (Fin a) NInf = (if a = 0 then NaN else if 0 < a then NInf else PInf)"
| "fmul PInf (Fin b) = (if b = 0 then NaN else if 0 < b then PInf else NInf)"
| "fmul NInf (Fin b) = (if b = 0 then NaN else if 0 < b then NInf else PInf)"
| "fmul PInf PInf = PInf"
| "fmul PInf NInf = NInf"
| "fmul NInf PInf = NInf"
| "fmul NInf NInf = PInf"
| "fmul NaN y = NaN"
| "fmul x NaN = NaN"

fun fadd :: "f32 \<Rightarrow> f32 \<Rightarrow> f32" where
  "fadd (Fin a) (Fin b) = Fin (a + b)"
| "fadd (Fin a) PInf = PInf"
| "fadd (Fin a) NInf = NInf"
| "fadd PInf (Fin b) = PInf"
| "fadd NInf (Fin b) = NInf"
| "fadd PInf PInf = PInf"
| "fadd NInf NInf = NInf"
| "fadd PInf NInf = NaN"
| "fadd NInf PInf = NaN"
| "fadd NaN y = NaN"
| "fadd x NaN = NaN"

definition fsum :: "f32 list \<Rightarrow> f32" where
  "fsum xs = foldr fadd xs (Fin 0)"



definition numel :: "'a tensor \<Rightarrow> nat" where
  "numel a = prod_list (shape a)"



definition zeros :: "nat list \<Rightarrow> f32 tensor" where
  "zeros s = Tensor s (replicate (prod_list s) (Fin 0))"

text \<open>Parameters created directly by the model functions, by module instance.\<close>

datatype pkey =
    LinearW nat
  | LinearB nat
  | LayerNormScale nat
  | LayerNormOffset nat
  | ConditionToken

text \<open>
  Every exception the modelled code can raise; all of them are subclasses of Python's
  \<open>Exception\<close>.
\<close>

datatype error =
    UnpackError "nat list"
  | ReshapeError "nat list" "nat list"
  | BroadcastError "nat list" "nat list"
  | ConcatenateError "nat list" "nat list"
  | ScalarInput
  | MissingParameter pkey
  | ParameterShape pkey "nat list"
  | NotCallable
  | ModuleError string

definition ebind :: "error + 'a \<Rightarrow> ('a \<Rightarrow> error + 'b) \<Rightarrow> error + 'b" where
  "ebind r f = (case r of Inl e \<Rightarrow> Inl e | Inr v \<Rightarrow> f v)"

text \<open>\<open>a.reshape(-1, d1, ..., dk)\<close>: the leading dimension is inferred.\<close>

definition reshape_neg1 :: "nat list \<Rightarrow> 'a tensor \<Rightarrow> error + 'a tensor" where
  "reshape_neg1 rest a =
     (let k = prod_list rest in
      if k = 0 \<or> numel a mod k \<noteq> 0 then Inl (ReshapeError (shape a) rest)
      else Inr (Tensor ((numel a div k) # rest) (elems a)))"

text \<open>\<open>a[..., None]\<close>: a trailing axis of length one.\<close>

definition expand_last :: "'a tensor \<Rightarrow> 'a tensor" where
  "expand_last a = Tensor (shape a @ [1]) (elems a)"

text \<open>NumPy broadcasting. \<open>bdims\<close> works on the reversed shapes.\<close>

fun bdims :: "nat list \<Rightarrow> nat list \<Rightarrow> nat list option" where
  "bdims [] ys = Some ys"
| "bdims xs [] = Some xs"
| "bdims (x # xs) (y # ys) =
     (if x = y \<or> y = 1 then map_option ((#) x) (bdims xs ys)
      else if x = 1 then map_option ((#) y) (bdims xs ys)
      else None)"

definition broadcast_shapes :: "nat list \<Rightarrow> nat list \<Rightarrow> nat list option" where
  "broadcast_shapes a b = map_option rev (bdims (rev a) (rev b))"

fun rows :: "nat \<Rightarrow> nat \<Rightarrow> 'a list \<Rightarrow> 'a list list" where
  "rows w 0 xs = []"
| "rows w (Suc k) xs = take w xs # rows w k (drop w xs)"

fun expand :: "nat list \<Rightarrow> nat list \<Rightarrow> 'a list \<Rightarrow> 'a list" where
  "expand (s # ss) (d # ds) xs =
     (if s = d then concat (map (expand ss ds) (rows (prod_list ss) s xs))
      else concat (replicate d (expand ss ds xs)))"
| "expand ss ds xs = xs"

definition left_pad :: "nat \<Rightarrow> nat list \<Rightarrow> nat list" where
  "left_pad r s = replicate (r - length s) 1 @ s"

definition broadcast_elems :: "nat list \<Rightarrow> 'a tensor \<Rightarrow> 'a list" where
  "broadcast_elems s a = expand (left_pad (length s) (shape a)) s (elems a)"

definition broadcast_to :: "'a tensor \<Rightarrow> nat list \<Rightarrow> error + 'a tensor" where
  "broadcast_to a s =
     (if broadcast_shapes (shape a) s = Some s then Inr (Tensor s (broadcast_elems s a))
      else Inl (BroadcastError (shape a) s))"

definition binop :: "('a \<Rightarrow> 'a \<Rightarrow> 'a) \<Rightarrow> 'a tensor \<Rightarrow> 'a tensor \<Rightarrow> error + 'a tensor" where
  "binop f a b =
     (case broadcast_shapes (shape a) (shape b) of
        None \<Rightarrow> Inl (BroadcastError (shape a) (shape b))
      | Some s \<Rightarrow> Inr (Tensor s (map2 f (broadcast_elems s a) (broadcast_elems s b))))"

text \<open>\<open>jnp.concatenate([a, b], axis=-1)\<close>.\<close>

definition concat_last :: "'a tensor \<Rightarrow> 'a tensor \<Rightarrow> error + 'a tensor" where
  "concat_last a b =
     (if shape a = [] \<or> shape b = [] \<or> butlast (shape a) \<noteq> butlast (shape b)
      then Inl (ConcatenateError (shape a) (shape b))
      else
        let k = prod_list (butlast (shape a)); wa = last (shape a); wb = last (shape b) in
        Inr (Tensor (butlast (shape a) @ [wa + wb])
               (concat (map2 (@) (rows wa k (elems a)) (rows wb k (elems b))))))"

section \<open>The parameter framework\<close>

text \<open>
  The parameters an apply function receives: those of the model function itself
  (\<open>own\<close>: the condition token and the dense and normalisation layers it creates) and
  those in the scopes of the library modules (\<open>modules\<close>), which only the modules read.
\<close>

record params =
  own :: "pkey \<Rightarrow> f32 tensor option"
  modules :: "string \<Rightarrow> f32 tensor option"

text \<open>\<open>hk.get_parameter\<close> under \<open>apply\<close>: the stored value, checked against the shape.\<close>

definition get_parameter :: "params \<Rightarrow> pkey \<Rightarrow> nat list \<Rightarrow> error + f32 tensor" where
  "get_parameter ps k shp =
     (case own ps k of
        None \<Rightarrow> Inl (MissingParameter k)
      | Some p \<Rightarrow> if shape p = shp then Inr p else Inl (ParameterShape k shp))"

text \<open>
  \<open>hk.Linear(out_dim)\<close>, the \<open>k\<close>-th instance the function creates, applied to \<open>x\<close>, as
  the library documents it: the input must have an axis, the weight has shape
  \<open>(n_in, out_dim)\<close> and the bias \<open>(out_dim)\<close>, and the result is \<open>x @ w + b\<close> along the
  last axis.
\<close>

definition hk_linear :: "params \<Rightarrow> nat \<Rightarrow> nat \<Rightarrow> f32 tensor \<Rightarrow> error + f32 tensor" where
  "hk_linear ps k out_dim x =
     (if shape x = [] then Inl ScalarInput
      else
        let n_in = last (shape x) in
        ebind (get_parameter ps (LinearW k) [n_in, out_dim]) (\<lambda>w.
        ebind (get_parameter ps (LinearB k) [out_dim]) (\<lambda>b.
        Inr (Tensor (butlast (shape x) @ [out_dim])
               (concat (map (\<lambda>row.
                  map (\<lambda>j. fadd (fsum (map (\<lambda>i. fmul (row ! i) (elems w ! (i * out_dim + j)))
                                           [0..<n_in]))
                              (elems b ! j))
                    [0..<out_dim])
                  (rows n_in (prod_list (butlast (shape x))) (elems x))))))))"

text \<open>
  The library modules the model functions call but do not define: the tokenizer, the
  Fourier time embedding, the transformer, and the standardisation step of layer
  normalisation. Each is a function of its constructor arguments, the module parameters
  and its inputs.
\<close>

record library =
  ScalarTokenizer ::
    "nat \<Rightarrow> nat \<Rightarrow> (string \<Rightarrow> f32 tensor option) \<Rightarrow> int tensor \<Rightarrow> f32 tensor \<Rightarrow>
       f32 tensor option \<Rightarrow> error + f32 tensor"
  GaussianFourierEmbedding ::
    "nat \<Rightarrow> (string \<Rightarrow> f32 tensor option) \<Rightarrow> f32 tensor \<Rightarrow> error + f32 tensor"
  Transformer ::
    "nat \<Rightarrow> nat \<Rightarrow> nat \<Rightarrow> nat \<Rightarrow> nat \<Rightarrow> (f32 tensor \<Rightarrow> f32 tensor) \<Rightarrow> bool \<Rightarrow> bool \<Rightarrow>
       (string \<Rightarrow> f32 tensor option) \<Rightarrow> f32 tensor \<Rightarrow> f32 tensor \<Rightarrow> bool tensor option \<Rightarrow>
       error + f32 tensor"
  standardize :: "f32 tensor \<Rightarrow> f32 tensor"

text \<open>
  \<open>hk.LayerNorm(axis=-1, create_scale=True, create_offset=True)\<close>, the \<open>k\<close>-th instance,
  as the library documents it: the input standardised along its last axis, times the
  scale, plus the offset, both of the length of that axis.
\<close>

definition hk_layer_norm :: "library \<Rightarrow> params \<Rightarrow> nat \<Rightarrow> f32 tensor \<Rightarrow> error + f32 tensor" where
  "hk_layer_norm lib ps k h =
     (if shape h = [] then Inl ScalarInput
      else
        ebind (get_parameter ps (LayerNormScale k) [last (shape h)]) (\<lambda>scale.
        ebind (get_parameter ps (LayerNormOffset k) [last (shape h)]) (\<lambda>offset.
        ebind (binop fmul (standardize lib h) scale) (\<lambda>y.
        binop fadd y offset))))"

section \<open>Effects\<close>

text \<open>
  What a call does besides returning: it prints lines and it calls the output-scaling
  function it was given. A printed line is the sequence of the fragments of its format
  string. A program takes the events so far and returns a value or an exception,
  together with the events extended.
\<close>

datatype frag = Txt string | Shp "nat list" | Exc error

datatype event = Print "frag list" | ScaleCall "f32 tensor" "f32 tensor"

type_synonym world = "event list"

type_synonym 'a prog = "world \<Rightarrow> (error + 'a) \<times> world"

definition ret :: "'a \<Rightarrow> 'a prog" where
  "ret v = (\<lambda>w. (Inr v, w))"

definition lift :: "error + 'a \<Rightarrow> 'a prog" where
  "lift r = (\<lambda>w. (r, w))"

definition emit :: "event \<Rightarrow> unit prog" where
  "emit ev = (\<lambda>w. (Inr (), w @ [ev]))"

definition bnd :: "'a prog \<Rightarrow> ('a \<Rightarrow> 'b prog) \<Rightarrow> 'b prog" where
  "bnd m f = (\<lambda>w. case m w of (Inl e, w') \<Rightarrow> (Inl e, w') | (Inr v, w') \<Rightarrow> f v w')"

definition try_except :: "'a prog \<Rightarrow> (error \<Rightarrow> 'a prog) \<Rightarrow> 'a prog" where
  "try_except m handler = (\<lambda>w. case m w of (Inl e, w') \<Rightarrow> handler e w' | (Inr v, w') \<Rightarrow> (Inr v, w'))"

definition py_print :: "frag list \<Rightarrow> unit prog" where
  "py_print fs = emit (Print fs)"

type_synonym scale_fn = "f32 tensor \<Rightarrow> f32 tensor \<Rightarrow> error + f32 tensor"

text \<open>\<open>output_scale_fn(t, out)\<close>; calling \<open>None\<close> raises.\<close>

definition call_scale :: "scale_fn option \<Rightarrow> f32 tensor \<Rightarrow> f32 tensor \<Rightarrow> f32 tensor prog" where
  "call_scale f t x =
     (case f of
        None \<Rightarrow> lift (Inl NotCallable)
      | Some g \<Rightarrow> bnd (emit (ScaleCall t x)) (\<lambda>_. lift (g t x)))"

text \<open>\<open>lambda t, x: x\<close>\<close>

definition default_scale :: scale_fn where
  "default_scale = (\<lambda>t x. Inr x)"

text \<open>
  \<open>hk.transform(f)\<close> is a pair of an initializer, which runs \<open>f\<close> creating its parameters
  from a random key and is not interpreted here, and an apply function, which runs \<open>f\<close>
  on given parameters; \<open>hk.without_apply_rng\<close> drops the key argument of the latter.
\<close>

datatype 'f init_fn = InitFn 'f

type_synonym prng_key = "nat \<times> nat"

definition hk_transform :: "(params \<Rightarrow> 'f) \<Rightarrow> (params \<Rightarrow> 'f) init_fn \<times> (params \<Rightarrow> prng_key option \<Rightarrow> 'f)" where
  "hk_transform f = (InitFn f, \<lambda>ps rng. f ps)"

definition without_apply_rng ::
  "'i \<times> (params \<Rightarrow> prng_key option \<Rightarrow> 'f) \<Rightarrow> 'i \<times> (params \<Rightarrow> 'f)" where
  "without_apply_rng tr = (fst tr, \<lambda>ps. snd tr ps None)"

section \<open>conditional_mlp\<close>

record common_args =
  layer_norm :: bool
  output_scale_fn :: "scale_fn option"

text \<open>
  \<open>if output_scale_fn is None: output_scale_fn = lambda t, x: x\<close>, the first statement of
  every factory.
\<close>

definition default_output_scale :: "'x common_args_scheme \<Rightarrow> 'x common_args_scheme" where
  "default_output_scale a =
     (if output_scale_fn a = None then a\<lparr>output_scale_fn := Some default_scale\<rparr> else a)"

record mlp_args = common_args +
  output_dim :: nat
  hidden_dim :: nat
  num_hidden :: int
  activation :: "f32 tensor \<Rightarrow> f32 tensor"

text \<open>
  The loop of \<open>score_net\<close>, \<open>for _ in range(num_hidden - 1)\<close>: \<open>j\<close> iterations are done and
  \<open>n\<close> remain. Iteration \<open>j\<close> creates the dense layer \<open>j + 1\<close> and the normalisation \<open>j\<close>.
\<close>

fun hidden_loop ::
  "library \<Rightarrow> mlp_args \<Rightarrow> params \<Rightarrow> f32 tensor \<Rightarrow> nat \<Rightarrow> nat \<Rightarrow> f32 tensor \<Rightarrow> error + f32 tensor" where
  "hidden_loop lib a ps time_embedding j 0 h = Inr h"
| "hidden_loop lib a ps time_embedding j (Suc n) h =
     ebind (hk_linear ps (Suc j) (hidden_dim a) h) (\<lambda>h_new.
     ebind (binop fadd h_new time_embedding) (\<lambda>h_new.
     ebind (if layer_norm a then hk_layer_norm lib ps j (activation a h_new)
            else Inr (activation a h_new)) (\<lambda>h.
     hidden_loop lib a ps time_embedding (Suc j) n h)))"

definition score_net ::
  "library \<Rightarrow> mlp_args \<Rightarrow> params \<Rightarrow> f32 tensor \<Rightarrow> f32 tensor \<Rightarrow> f32 tensor \<Rightarrow> f32 tensor prog" where
  "score_net lib a ps t x ctx =
     bnd (lift (concat_last x ctx)) (\<lambda>x.
     bnd (lift (GaussianFourierEmbedding lib (hidden_dim a) (modules ps) (expand_last t))) (\<lambda>time_embedding.
     bnd (lift (hk_linear ps 0 (hidden_dim a) x)) (\<lambda>l.
     bnd (lift (binop fadd l time_embedding)) (\<lambda>pre.
     bnd (lift (hidden_loop lib a ps time_embedding 0 (nat (num_hidden a - 1)) (activation a pre))) (\<lambda>h.
     bnd (lift (hk_linear ps (Suc (nat (num_hidden a - 1))) (output_dim a) h)) (\<lambda>out.
     bnd (call_scale (output_scale_fn a) t out) (\<lambda>out.
     ret out)))))))"

definition conditional_mlp where
  "conditional_mlp lib a =
     (let a = default_output_scale a;
          tr = without_apply_rng (hk_transform (score_net lib a));
          init_fn = fst tr; apply_fn = snd tr
      in Some (init_fn, apply_fn))"

section \<open>The transformer models\<close>

text \<open>An argument with a default: omitted by the caller, or given.\<close>

datatype 'a arg = Omitted | Given 'a

record transformer_args = common_args +
  num_nodes :: nat
  token_dim :: nat
  condition_token_dim :: nat
  condition_token_init_scale :: real
  condition_token_init_mean :: real
  condition_mode :: string
  time_embedding_dim :: nat
  num_heads :: nat
  num_layers :: nat
  attn_size :: nat
  widening_factor :: nat
  num_hidden_layers :: nat
  act :: "f32 tensor \<Rightarrow> f32 tensor"
  skip_connection_attn :: bool
  skip_connection_mlp :: bool
  base_mask :: "bool tensor option"

typedecl builder

record structured_args = transformer_args +
  data_name_to_id :: "string \<Rightarrow> nat option"
  value_embeding_builder :: "builder option"
  node_embeding_builder :: "builder option"
  node_meta_data_embeding_builder :: "builder option"

text \<open>
  The first statements of both transformer factories (lines 70 to 80 and 176 to 186):
  the default of \<open>output_scale_fn\<close> and the rebinding of \<open>token_dim\<close> and
  \<open>condition_token_dim\<close> by \<open>condition_mode\<close>. A mode that is none of the three changes
  nothing.
\<close>

definition rebind_args :: "'x transformer_args_scheme \<Rightarrow> 'x transformer_args_scheme" where
  "rebind_args a =
     (let a = default_output_scale a in
      if condition_mode a = ''concat'' then a\<lparr>condition_token_dim := condition_token_dim a\<rparr>
      else if condition_mode a = ''add'' then
        (let a = a\<lparr>token_dim := token_dim a + condition_token_dim a\<rparr> in
         a\<lparr>condition_token_dim := token_dim a\<rparr>)
      else if condition_mode a = ''none'' then
        (let a = a\<lparr>token_dim := token_dim a + condition_token_dim a\<rparr> in
         a\<lparr>condition_token_dim := 0\<rparr>)
      else a)"

text \<open>\<open>_, current_nodes, _ = data.shape\<close>\<close>

definition unpack3 :: "nat list \<Rightarrow> error + nat" where
  "unpack3 s = (case s of [_, current_nodes, _] \<Rightarrow> Inr current_nodes | _ \<Rightarrow> Inl (UnpackError s))"

text \<open>The guarded reshape of \<open>scalar_transformer_model\<close> (lines 97 to 101).\<close>

definition guarded_reshape :: "f32 tensor \<Rightarrow> nat \<Rightarrow> nat \<Rightarrow> unit prog" where
  "guarded_reshape tokens current_nodes tdim =
     try_except
       (bnd (lift (reshape_neg1 [current_nodes, tdim] tokens)) (\<lambda>reshaped_tokens.
        py_print [Txt ''Reshaped tokens shape: '', Shp (shape reshaped_tokens)]))
       (\<lambda>e. py_print [Txt ''Error reshaping tokens: '', Exc e])"

text \<open>
  The conditioning block, the same in both models (lines 107 to 123 and 207 to 223);
  \<open>condition_mask\<close> is the mask already reshaped to two axes.
\<close>

definition conditioning ::
  "'x transformer_args_scheme \<Rightarrow> params \<Rightarrow> f32 tensor \<Rightarrow> nat \<Rightarrow> f32 tensor \<Rightarrow> error + f32 tensor" where
  "conditioning a ps condition_mask current_nodes tokens =
     (if condition_mode a \<noteq> ''none'' then
        ebind (get_parameter ps ConditionToken [1, 1, condition_token_dim a]) (\<lambda>condition_token.
        ebind (reshape_neg1 [current_nodes, 1] condition_mask) (\<lambda>condition_mask.
        ebind (binop fmul condition_mask condition_token) (\<lambda>condition_token.
        if condition_mode a = ''add'' then binop fadd tokens condition_token
        else if condition_mode a = ''concat'' then
          ebind (broadcast_to condition_token (butlast (shape tokens) @ [condition_token_dim a]))
            (\<lambda>condition_token.
          concat_last tokens condition_token)
        else Inr tokens)))
      else Inr tokens)"

text \<open>The forward pass, the same in both models (lines 126 to 145 and 226 to 243).\<close>

definition forward_pass ::
  "library \<Rightarrow> 'x transformer_args_scheme \<Rightarrow> params \<Rightarrow> f32 tensor \<Rightarrow> f32 tensor \<Rightarrow> f32 tensor \<Rightarrow>
     bool tensor option \<Rightarrow> f32 tensor prog" where
  "forward_pass lib a ps t tokens time edge_mask =
     bnd (lift (Transformer lib (num_heads a) (num_layers a) (attn_size a) (widening_factor a)
                  (num_hidden_layers a) (act a) (skip_connection_attn a) (skip_connection_mlp a)
                  (modules ps) tokens time edge_mask)) (\<lambda>h.
     bnd (py_print [Txt ''Transformer output shape: '', Shp (shape h)]) (\<lambda>_.
     bnd (lift (hk_linear ps 0 1 h)) (\<lambda>out.
     bnd (call_scale (output_scale_fn a) t out) (\<lambda>out.
     bnd (py_print [Txt ''Final output shape: '', Shp (shape out)]) (\<lambda>_.
     ret out)))))"

text \<open>The model function of \<open>scalar_transformer_model\<close> (lines 82 to 145).\<close>

definition model ::
  "library \<Rightarrow> transformer_args \<Rightarrow> params \<Rightarrow> f32 tensor \<Rightarrow> f32 tensor \<Rightarrow> int tensor \<Rightarrow> f32 tensor \<Rightarrow>
     f32 tensor option \<Rightarrow> bool tensor option arg \<Rightarrow> f32 tensor prog" where
  "model lib a ps t data data_id condition_mask meta_data edge_mask_arg =
     (let edge_mask = (case edge_mask_arg of Omitted \<Rightarrow> base_mask a | Given m \<Rightarrow> m) in
      bnd (py_print [Txt ''Model called with data shape: '', Shp (shape data),
                     Txt '', data_id shape: '', Shp (shape data_id),
                     Txt '', condition_mask shape: '', Shp (shape condition_mask)]) (\<lambda>_.
      bnd (lift (unpack3 (shape data))) (\<lambda>current_nodes.
      bnd (lift (reshape_neg1 [current_nodes] data_id)) (\<lambda>data_id.
      bnd (lift (reshape_neg1 [current_nodes] condition_mask)) (\<lambda>condition_mask.
      bnd (py_print [Txt ''Tokenizer called with data_id shape: '', Shp (shape data_id),
                     Txt '' and data shape: '', Shp (shape data)]) (\<lambda>_.
      bnd (lift (ScalarTokenizer lib (token_dim a) (num_nodes a) (modules ps) data_id data meta_data))
        (\<lambda>tokens.
      bnd (py_print [Txt ''Tokens shape before reshaping: '', Shp (shape tokens)]) (\<lambda>_.
      bnd (guarded_reshape tokens current_nodes (token_dim a)) (\<lambda>_.
      bnd (lift (GaussianFourierEmbedding lib (time_embedding_dim a) (modules ps) (expand_last t)))
        (\<lambda>time.
      bnd (py_print [Txt ''Time embedding shape: '', Shp (shape time)]) (\<lambda>_.
      bnd (lift (conditioning a ps condition_mask current_nodes tokens)) (\<lambda>tokens.
      bnd (py_print [Txt ''Conditioned tokens shape: '', Shp (shape tokens)]) (\<lambda>_.
      forward_pass lib a ps t tokens time edge_mask)))))))))))))"

definition scalar_transformer_model where
  "scalar_transformer_model lib a =
     (let a = rebind_args a;
          tr = without_apply_rng (hk_transform (model lib a));
          init_fn = fst tr; model_fn = snd tr
      in Some (init_fn, model_fn))"

text \<open>The model function of \<open>structured_transformer_model\<close> (lines 188 to 243).\<close>

definition structured_model ::
  "library \<Rightarrow> structured_args \<Rightarrow> params \<Rightarrow> f32 tensor \<Rightarrow> f32 tensor \<Rightarrow> int tensor \<Rightarrow> f32 tensor \<Rightarrow>
     f32 tensor option \<Rightarrow> bool tensor option arg \<Rightarrow> f32 tensor prog" where
  "structured_model lib a ps t data data_id condition_mask meta_data edge_mask_arg =
     (let edge_mask = (case edge_mask_arg of Omitted \<Rightarrow> base_mask a | Given m \<Rightarrow> m) in
      bnd (lift (unpack3 (shape data))) (\<lambda>current_nodes.
      bnd (py_print [Txt ''Initial shapes - data: '', Shp (shape data),
                     Txt '', data_id: '', Shp (shape data_id),
                     Txt '', condition_mask: '', Shp (shape condition_mask),
                     Txt '', meta_data: '',
                     (case meta_data of None \<Rightarrow> Txt ''None'' | Some md \<Rightarrow> Shp (shape md))]) (\<lambda>_.
      bnd (lift (reshape_neg1 [current_nodes] data_id)) (\<lambda>data_id.
      bnd (lift (reshape_neg1 [current_nodes] condition_mask)) (\<lambda>condition_mask.
      bnd (py_print [Txt ''Reshaped data_id: '', Shp (shape data_id),
                     Txt '', condition_mask: '', Shp (shape condition_mask)]) (\<lambda>_.
      bnd (lift (ScalarTokenizer lib (token_dim a) (num_nodes a) (modules ps) data_id data meta_data))
        (\<lambda>tokens.
      bnd (py_print [Txt ''Tokens shape: '', Shp (shape tokens)]) (\<lambda>_.
      bnd (lift (GaussianFourierEmbedding lib (time_embedding_dim a) (modules ps) (expand_last t)))
        (\<lambda>time.
      bnd (py_print [Txt ''Time embedding shape: '', Shp (shape time)]) (\<lambda>_.
      bnd (lift (conditioning a ps condition_mask current_nodes tokens)) (\<lambda>tokens.
      bnd (py_print [Txt ''Conditioned tokens shape: '', Shp (shape tokens)]) (\<lambda>_.
      forward_pass lib a ps t tokens time edge_mask))))))))))))"

text \<open>
  \<open>structured_transformer_model\<close> ends with the definition of its model function: it has
  no \<open>return\<close> statement, so a call returns \<open>None\<close>.
\<close>

definition structured_transformer_model where
  "structured_transformer_model lib a =
     (let a = rebind_args a;
          model_def = structured_model lib a
      in (None :: ((params \<Rightarrow> f32 tensor \<Rightarrow> f32 tensor \<Rightarrow> int tensor \<Rightarrow> f32 tensor \<Rightarrow>
                      f32 tensor option \<Rightarrow> bool tensor option arg \<Rightarrow> f32 tensor prog) init_fn \<times>
                   (params \<Rightarrow> f32 tensor \<Rightarrow> f32 tensor \<Rightarrow> int tensor \<Rightarrow> f32 tensor \<Rightarrow>
                      f32 tensor option \<Rightarrow> bool tensor option arg \<Rightarrow> f32 tensor prog)) option))"

section \<open>Results and traces of programs\<close>

text \<open>
  A program logs when it only appends to the events it is given and neither its result nor
  what it appends depends on them; then \<open>outcome\<close> is its result and \<open>emitted\<close> what it
  appends.
\<close>

definition logs :: "'a prog \<Rightarrow> bool" where
  "logs m \<longleftrightarrow> (\<forall>w. m w = (fst (m []), w @ snd (m [])))"

definition outcome :: "'a prog \<Rightarrow> error + 'a" where "outcome m = fst (m [])"
definition emitted :: "'a prog \<Rightarrow> event list" where "emitted m = snd (m [])"

text \<open>The calls of the output-scaling function among some events.\<close>

fun is_scale_call :: "event \<Rightarrow> bool" where
  "is_scale_call (ScaleCall t x) = True"
| "is_scale_call (Print fs) = False"

definition scale_calls :: "world \<Rightarrow> event list" where
  "scale_calls evs = filter is_scale_call evs"

section \<open>Variants for comparison\<close>

text \<open>
  The model function of \<open>scalar_transformer_model\<close> with the guarded reshape (lines 97 to
  101) taken out, for comparison.
\<close>

definition model_without_reshape ::
  "library \<Rightarrow> transformer_args \<Rightarrow> params \<Rightarrow> f32 tensor \<Rightarrow> f32 tensor \<Rightarrow> int tensor \<Rightarrow> f32 tensor \<Rightarrow>
     f32 tensor option \<Rightarrow> bool tensor option arg \<Rightarrow> f32 tensor prog" where
  "model_without_reshape lib a ps t data data_id condition_mask meta_data edge_mask_arg =
     (let edge_mask = (case edge_mask_arg of Omitted \<Rightarrow> base_mask a | Given m \<Rightarrow> m) in
      bnd (py_print [Txt ''Model called with data shape: '', Shp (shape data),
                     Txt '', data_id shape: '', Shp (shape data_id),
                     Txt '', condition_mask shape: '', Shp (shape condition_mask)]) (\<lambda>_.
      bnd (lift (unpack3 (shape data))) (\<lambda>current_nodes.
      bnd (lift (reshape_neg1 [current_nodes] data_id)) (\<lambda>data_id.
      bnd (lift (reshape_neg1 [current_nodes] condition_mask)) (\<lambda>condition_mask.
      bnd (py_print [Txt ''Tokenizer called with data_id shape: '', Shp (shape data_id),
                     Txt '' and data shape: '', Shp (shape data)]) (\<lambda>_.
      bnd (lift (ScalarTokenizer lib (token_dim a) (num_nodes a) (modules ps) data_id data meta_data))
        (\<lambda>tokens.
      bnd (py_print [Txt ''Tokens shape before reshaping: '', Shp (shape tokens)]) (\<lambda>_.
      bnd (lift (GaussianFourierEmbedding lib (time_embedding_dim a) (modules ps) (expand_last t)))
        (\<lambda>time.
      bnd (py_print [Txt ''Time embedding shape: '', Shp (shape time)]) (\<lambda>_.
      bnd (lift (conditioning a ps condition_mask current_nodes tokens)) (\<lambda>tokens.
      bnd (py_print [Txt ''Conditioned tokens shape: '', Shp (shape tokens)]) (\<lambda>_.
      forward_pass lib a ps t tokens time edge_mask))))))))))))"

subsection \<open>conditional_mlp as described\<close>

text \<open>
  The network as the description words it, for comparison with \<open>score_net\<close>: \<open>x\<close> and the
  context concatenated, then \<open>num_hidden\<close> dense layers of width \<open>hidden_dim\<close>, each adding
  the same time embedding before the activation and, when \<open>layer_norm\<close> is set, followed by
  a layer normalisation, then a dense layer to \<open>output_dim\<close>. Layer \<open>i\<close> is the \<open>i\<close>-th dense
  layer created and has the \<open>i\<close>-th normalisation.
\<close>

definition dense_layer ::
  "mlp_args \<Rightarrow> params \<Rightarrow> f32 tensor \<Rightarrow> nat \<Rightarrow> f32 tensor \<Rightarrow> error + f32 tensor" where
  "dense_layer a ps time_embedding i h =
     ebind (hk_linear ps i (hidden_dim a) h) (\<lambda>l.
     ebind (binop fadd l time_embedding) (\<lambda>pre. Inr (activation a pre)))"

fun stated_layers ::
  "library \<Rightarrow> mlp_args \<Rightarrow> params \<Rightarrow> f32 tensor \<Rightarrow> nat \<Rightarrow> nat \<Rightarrow> f32 tensor \<Rightarrow> error + f32 tensor" where
  "stated_layers lib a ps time_embedding i 0 h = Inr h"
| "stated_layers lib a ps time_embedding i (Suc n) h =
     ebind (dense_layer a ps time_embedding i h) (\<lambda>h.
     ebind (if layer_norm a then hk_layer_norm lib ps i h else Inr h) (\<lambda>h.
     stated_layers lib a ps time_embedding (Suc i) n h))"

definition stated_score_net ::
  "library \<Rightarrow> mlp_args \<Rightarrow> params \<Rightarrow> f32 tensor \<Rightarrow> f32 tensor \<Rightarrow> f32 tensor \<Rightarrow> error + f32 tensor" where
  "stated_score_net lib a ps t x ctx =
     ebind (concat_last x ctx) (\<lambda>x.
     ebind (GaussianFourierEmbedding lib (hidden_dim a) (modules ps) (expand_last t)) (\<lambda>time_embedding.
     ebind (stated_layers lib a ps time_embedding 0 (nat (num_hidden a)) x) (\<lambda>h.
     hk_linear ps (nat (num_hidden a)) (output_dim a) h)))"

text \<open>
  The same with the first hidden layer left without normalisation, so that the
  normalisation after layer \<open>i\<close> is the \<open>(i - 1)\<close>-th created.
\<close>

fun amended_layers ::
  "library \<Rightarrow> mlp_args \<Rightarrow> params \<Rightarrow> f32 tensor \<Rightarrow> nat \<Rightarrow> nat \<Rightarrow> f32 tensor \<Rightarrow> error + f32 tensor" where
  "amended_layers lib a ps time_embedding i 0 h = Inr h"
| "amended_layers lib a ps time_embedding i (Suc n) h =
     ebind (dense_layer a ps time_embedding i h) (\<lambda>h.
     ebind (if layer_norm a \<and> i \<noteq> 0 then hk_layer_norm lib ps (i - 1) h else Inr h) (\<lambda>h.
     amended_layers lib a ps time_embedding (Suc i) n h))"

definition amended_score_net ::
  "library \<Rightarrow> mlp_args \<Rightarrow> params \<Rightarrow> f32 tensor \<Rightarrow> f32 tensor \<Rightarrow> f32 tensor \<Rightarrow> error + f32 tensor" where
  "amended_score_net lib a ps t x ctx =
     ebind (concat_last x ctx) (\<lambda>x.
     ebind (GaussianFourierEmbedding lib (hidden_dim a) (modules ps) (expand_last t)) (\<lambda>time_embedding.
     ebind (amended_layers lib a ps time_embedding 0 (nat (num_hidden a)) x) (\<lambda>h.
     hk_linear ps (nat (num_hidden a)) (output_dim a) h)))"

section \<open>What is assumed of the library\<close>

text \<open>
  The shapes the library modules are relied on to return. For node identifiers and data
  of matching shapes \<open>(B, N)\<close> and \<open>(B, N, 1)\<close> the tokenizer returns one token of the width
  it was built with per node; the transformer keeps the leading axes of its tokens; a
  scaling function keeps the shape of its argument.
\<close>

definition tokenizer_shape_ok :: "library \<Rightarrow> bool" where
  "tokenizer_shape_ok lib \<longleftrightarrow>
     (\<forall>tdim nn mp ids data md out B N.
        shape ids = [B, N] \<longrightarrow> shape data = [B, N, 1] \<longrightarrow>
        ScalarTokenizer lib tdim nn mp ids data md = Inr out \<longrightarrow> shape out = [B, N, tdim])"

definition tokenizer_width_ok :: "library \<Rightarrow> bool" where
  "tokenizer_width_ok lib \<longleftrightarrow>
     (\<forall>tdim nn mp ids data md out.
        ScalarTokenizer lib tdim nn mp ids data md = Inr out \<longrightarrow>
        shape out \<noteq> [] \<and> last (shape out) = tdim)"

definition transformer_shape_ok :: "library \<Rightarrow> bool" where
  "transformer_shape_ok lib \<longleftrightarrow>
     (\<forall>nh nl asz wf nhl ac sa sm mp tokens time mask out.
        Transformer lib nh nl asz wf nhl ac sa sm mp tokens time mask = Inr out \<longrightarrow>
        butlast (shape out) = butlast (shape tokens))"

definition scale_shape_ok :: "scale_fn option \<Rightarrow> bool" where
  "scale_shape_ok f \<longleftrightarrow>
     (case f of None \<Rightarrow> True | Some g \<Rightarrow> (\<forall>t x y. g t x = Inr y \<longrightarrow> shape y = shape x))"

section \<open>Example inputs\<close>

text \<open>
  A small library: the tokenizer repeats each node value \<open>token_dim\<close> times, the time
  embedding is zero, the transformer returns its tokens, standardisation is the identity.
\<close>

definition ex_lib :: library where
  "ex_lib =
     \<lparr>ScalarTokenizer = (\<lambda>tdim nn mp ids data md.
        Inr (Tensor (butlast (shape data) @ [tdim]) (concat (map (replicate tdim) (elems data))))),
      GaussianFourierEmbedding = (\<lambda>dim mp x. Inr (zeros (butlast (shape x) @ [dim]))),
      Transformer = (\<lambda>nh nl asz wf nhl ac sa sm mp tokens time mask. Inr tokens),
      standardize = (\<lambda>x. x)\<rparr>"

definition ex_params :: params where
  "ex_params =
     \<lparr>own = [LinearW 0 \<mapsto> Tensor [2, 1] [Fin 1, Fin 1], LinearB 0 \<mapsto> Tensor [1] [Fin 0],
             LinearW 1 \<mapsto> Tensor [1, 1] [Fin 2], LinearB 1 \<mapsto> Tensor [1] [Fin 1],
             ConditionToken \<mapsto> Tensor [1, 1, 1] [Fin 5]],
      modules = (\<lambda>_. None)\<rparr>"

definition ex_args :: transformer_args where
  "ex_args =
     \<lparr>layer_norm = True, output_scale_fn = None, num_nodes = 2, token_dim = 1,
      condition_token_dim = 1, condition_token_init_scale = 1 / 100,
      condition_token_init_mean = 0, condition_mode = ''concat'', time_embedding_dim = 2,
      num_heads = 1, num_layers = 1, attn_size = 1, widening_factor = 1, num_hidden_layers = 1,
      act = (\<lambda>x. x), skip_connection_attn = True, skip_connection_mlp = True,
      base_mask = None\<rparr>"

definition ex_structured_args :: structured_args where
  "ex_structured_args =
     transformer_args.extend ex_args
       (structured_args.fields (\<lambda>_. None) None None None)"

definition ex_mlp_args :: mlp_args where
  "ex_mlp_args =
     \<lparr>layer_norm = True, output_scale_fn = None, output_dim = 1, hidden_dim = 1,
      num_hidden = 1, activation = (\<lambda>x. x)\<rparr>"

definition ex_t :: "f32 tensor" where "ex_t = Tensor [1] [Fin 1]"
definition ex_data :: "f32 tensor" where "ex_data = Tensor [1, 2, 1] [Fin 3, Fin 4]"
definition ex_data_id :: "int tensor" where "ex_data_id = Tensor [2] [0, 1]"
definition ex_mask :: "f32 tensor" where "ex_mask = Tensor [1, 2] [Fin 0, Fin 1]"
definition ex_x :: "f32 tensor" where "ex_x = Tensor [1, 1] [Fin 2]"
definition ex_context :: "f32 tensor" where "ex_context = Tensor [1, 1] [Fin 3]"

text \<open>
  A configuration in which the guarded reshape fails: tokens of width zero, to which one
  condition entry is concatenated.
\<close>

definition ex_args_width0 :: transformer_args where
  "ex_args_width0 = ex_args\<lparr>token_dim := 0\<rparr>"

definition ex_params_width0 :: params where
  "ex_params_width0 = ex_params\<lparr>own := (own ex_params)(LinearW 0 \<mapsto> Tensor [1, 1] [Fin 1])\<rparr>"

text \<open>The example arguments with conditioning off, and a second mask of the same shape.\<close>

definition ex_args_none :: transformer_args where
  "ex_args_none = ex_args\<lparr>condition_mode := ''none''\<rparr>"

definition ex_structured_args_none :: structured_args where
  "ex_structured_args_none = ex_structured_args\<lparr>condition_mode := ''none''\<rparr>"

definition ex_mask_ones :: "f32 tensor" where "ex_mask_ones = Tensor [1, 2] [Fin 1, Fin 1]"




text \<open>Parameters with a normalisation layer, and the example network with two hidden layers.\<close>

definition ex_params_ln :: params where
  "ex_params_ln =
     \<lparr>own = [LinearW 0 \<mapsto> Tensor [2, 1] [Fin 1, Fin 1], LinearB 0 \<mapsto> Tensor [1] [Fin 0],
             LinearW 1 \<mapsto> Tensor [1, 1] [Fin 2], LinearB 1 \<mapsto> Tensor [1] [Fin 1],
             LinearW 2 \<mapsto> Tensor [1, 1] [Fin 3], LinearB 2 \<mapsto> Tensor [1] [Fin 0],
             LayerNormScale 0 \<mapsto> Tensor [1] [Fin 2], LayerNormOffset 0 \<mapsto> Tensor [1] [Fin 1]],
      modules = (\<lambda>_. None)\<rparr>"

definition ex_mlp_args2 :: mlp_args where
  "ex_mlp_args2 = ex_mlp_args\<lparr>num_hidden := 2\<rparr>"

section \<open>Facts about programs\<close>

lemma logs_run: "logs m \<Longrightarrow> m w = (outcome m, w @ emitted m)"
  unfolding logs_def outcome_def emitted_def by blast

lemma logsI: "(\<And>w. m w = (r, w @ evs)) \<Longrightarrow> logs m"
  unfolding logs_def by simp

lemma logs_ret [simp]: "logs (ret v)" by (simp add: logs_def ret_def)
lemma logs_lift [simp]: "logs (lift r)" by (simp add: logs_def lift_def)
lemma logs_emit [simp]: "logs (emit ev)" by (simp add: logs_def emit_def)
lemma logs_py_print [simp]: "logs (py_print fs)" by (simp add: py_print_def)

lemma outcome_ret [simp]: "outcome (ret v) = Inr v" by (simp add: outcome_def ret_def)
lemma outcome_lift [simp]: "outcome (lift r) = r" by (simp add: outcome_def lift_def)
lemma outcome_emit [simp]: "outcome (emit ev) = Inr ()" by (simp add: outcome_def emit_def)
lemma outcome_py_print [simp]: "outcome (py_print fs) = Inr ()" by (simp add: py_print_def)
lemma emitted_ret [simp]: "emitted (ret v) = []" by (simp add: emitted_def ret_def)
lemma emitted_lift [simp]: "emitted (lift r) = []" by (simp add: emitted_def lift_def)
lemma emitted_emit [simp]: "emitted (emit ev) = [ev]" by (simp add: emitted_def emit_def)
lemma emitted_py_print [simp]: "emitted (py_print fs) = [Print fs]" by (simp add: py_print_def)

lemma bnd_run:
  assumes "logs m" and "\<And>v. logs (f v)"
  shows "bnd m f w =
    (case outcome m of
       Inl e \<Rightarrow> (Inl e, w @ emitted m)
     | Inr v \<Rightarrow> (outcome (f v), w @ emitted m @ emitted (f v)))"
  using logs_run [OF assms(1), of w] logs_run [OF assms(2)]
  by (simp add: bnd_def split: sum.splits)

lemma logs_bnd [simp, intro]:
  assumes "logs m" and "\<And>v. logs (f v)"
  shows "logs (bnd m f)"
  by (rule logsI [where r = "case outcome m of Inl e \<Rightarrow> Inl e | Inr v \<Rightarrow> outcome (f v)"
        and evs = "case outcome m of Inl e \<Rightarrow> emitted m | Inr v \<Rightarrow> emitted m @ emitted (f v)"])
     (simp add: bnd_run [OF assms] split: sum.splits)

lemma outcome_bnd:
  assumes "logs m" and "\<And>v. logs (f v)"
  shows "outcome (bnd m f) = (case outcome m of Inl e \<Rightarrow> Inl e | Inr v \<Rightarrow> outcome (f v))"
  using bnd_run [OF assms, where w = "[]"] by (simp add: outcome_def split: sum.splits)

lemma try_run:
  assumes "logs m" and "\<And>e. logs (h e)"
  shows "try_except m h w =
    (case outcome m of
       Inl e \<Rightarrow> (outcome (h e), w @ emitted m @ emitted (h e))
     | Inr v \<Rightarrow> (Inr v, w @ emitted m))"
  using logs_run [OF assms(1), of w] logs_run [OF assms(2)]
  by (simp add: try_except_def split: sum.splits)

lemma logs_try [simp, intro]:
  assumes "logs m" and "\<And>e. logs (h e)"
  shows "logs (try_except m h)"
  by (rule logsI [where r = "case outcome m of Inl e \<Rightarrow> outcome (h e) | Inr v \<Rightarrow> Inr v"
        and evs = "case outcome m of Inl e \<Rightarrow> emitted m @ emitted (h e) | Inr v \<Rightarrow> emitted m"])
     (simp add: try_run [OF assms] split: sum.splits)

lemma logs_call_scale [simp]: "logs (call_scale f t x)"
  by (simp add: call_scale_def split: option.splits)

lemma logs_guarded_reshape [simp]: "logs (guarded_reshape tokens n d)"
  by (simp add: guarded_reshape_def)

lemma logs_forward_pass [simp]: "logs (forward_pass lib a ps t tokens time em)"
  by (simp add: forward_pass_def)

lemma logs_model [simp]: "logs (model lib a ps t data data_id cm md em)"
  by (simp add: model_def Let_def)

lemma logs_structured_model [simp]: "logs (structured_model lib a ps t data data_id cm md em)"
  by (simp add: structured_model_def Let_def)

lemma logs_score_net [simp]: "logs (score_net lib a ps t x c)"
  by (simp add: score_net_def)

subsection \<open>Running the model functions\<close>

lemma bnd_lift: "bnd (lift r) f w = (case r of Inl e \<Rightarrow> (Inl e, w) | Inr v \<Rightarrow> f v w)"
  by (simp add: bnd_def lift_def split: sum.splits)

lemma bnd_lift_Inr: "r = Inr v \<Longrightarrow> bnd (lift r) f w = f v w"
  by (simp add: bnd_lift)

lemma bnd_py_print: "bnd (py_print fs) f w = f () (w @ [Print fs])"
  by (simp add: bnd_def py_print_def emit_def)

lemma guarded_reshape_run:
  "guarded_reshape tokens n d w =
     (Inr (), w @ [Print (case reshape_neg1 [n, d] tokens of
                            Inl e \<Rightarrow> [Txt ''Error reshaping tokens: '', Exc e]
                          | Inr reshaped_tokens \<Rightarrow> [Txt ''Reshaped tokens shape: '', Shp (shape reshaped_tokens)])])"
  by (simp add: guarded_reshape_def try_except_def bnd_def lift_def py_print_def emit_def split: sum.splits)

lemma bnd_guarded_reshape:
  "bnd (guarded_reshape tokens n d) f w =
     f () (w @ [Print (case reshape_neg1 [n, d] tokens of
                            Inl e \<Rightarrow> [Txt ''Error reshaping tokens: '', Exc e]
                          | Inr reshaped_tokens \<Rightarrow> [Txt ''Reshaped tokens shape: '', Shp (shape reshaped_tokens)])])"
  by (simp add: bnd_def guarded_reshape_run)

lemma model_run:
  assumes "unpack3 (shape data) = Inr n"
    and "reshape_neg1 [n] data_id = Inr ids"
    and "reshape_neg1 [n] condition_mask = Inr cm"
    and "ScalarTokenizer lib (token_dim a) (num_nodes a) (modules ps) ids data meta_data = Inr tokens"
    and "GaussianFourierEmbedding lib (time_embedding_dim a) (modules ps) (expand_last t) = Inr time"
    and "conditioning a ps cm n tokens = Inr ctokens"
  shows "model lib a ps t data data_id condition_mask meta_data edge_mask_arg w =
     forward_pass lib a ps t ctokens time
       (case edge_mask_arg of Omitted \<Rightarrow> base_mask a | Given m \<Rightarrow> m)
       (w @ [Print [Txt ''Model called with data shape: '', Shp (shape data),
                     Txt '', data_id shape: '', Shp (shape data_id),
                     Txt '', condition_mask shape: '', Shp (shape condition_mask)],
             Print [Txt ''Tokenizer called with data_id shape: '', Shp (shape ids),
                     Txt '' and data shape: '', Shp (shape data)],
             Print [Txt ''Tokens shape before reshaping: '', Shp (shape tokens)],
             Print (case reshape_neg1 [n, token_dim a] tokens of
                            Inl e \<Rightarrow> [Txt ''Error reshaping tokens: '', Exc e]
                          | Inr reshaped_tokens \<Rightarrow> [Txt ''Reshaped tokens shape: '', Shp (shape reshaped_tokens)]),
             Print [Txt ''Time embedding shape: '', Shp (shape time)],
             Print [Txt ''Conditioned tokens shape: '', Shp (shape ctokens)]])"
  unfolding model_def Let_def
  by (simp add: bnd_py_print bnd_lift_Inr [OF assms(1)] bnd_lift_Inr [OF assms(2)] bnd_lift_Inr [OF assms(3)]
      bnd_lift_Inr [OF assms(4)] bnd_lift_Inr [OF assms(5)] bnd_lift_Inr [OF assms(6)] bnd_guarded_reshape)

lemma model_success:
  assumes "fst (model lib a ps t data data_id condition_mask meta_data edge_mask_arg w) = Inr out"
  obtains n ids cm tokens time ctokens where
    "unpack3 (shape data) = Inr n"
    and "reshape_neg1 [n] data_id = Inr ids"
    and "reshape_neg1 [n] condition_mask = Inr cm"
    and "ScalarTokenizer lib (token_dim a) (num_nodes a) (modules ps) ids data meta_data = Inr tokens"
    and "GaussianFourierEmbedding lib (time_embedding_dim a) (modules ps) (expand_last t) = Inr time"
    and "conditioning a ps cm n tokens = Inr ctokens"
proof -
  note run = assms [unfolded model_def Let_def bnd_py_print]
  obtain n where 1: "unpack3 (shape data) = Inr n"
    using run by (cases "unpack3 (shape data)") (simp_all add: bnd_lift)
  note run = run [unfolded bnd_lift_Inr [OF 1] bnd_py_print]
  obtain ids where 2: "reshape_neg1 [n] data_id = Inr ids"
    using run by (cases "reshape_neg1 [n] data_id") (simp_all add: bnd_lift)
  note run = run [unfolded bnd_lift_Inr [OF 2] bnd_py_print]
  obtain cm where 3: "reshape_neg1 [n] condition_mask = Inr cm"
    using run by (cases "reshape_neg1 [n] condition_mask") (simp_all add: bnd_lift)
  note run = run [unfolded bnd_lift_Inr [OF 3] bnd_py_print]
  obtain tokens where 4: "ScalarTokenizer lib (token_dim a) (num_nodes a) (modules ps) ids data meta_data = Inr tokens"
    using run by (cases "ScalarTokenizer lib (token_dim a) (num_nodes a) (modules ps) ids data meta_data") (simp_all add: bnd_lift)
  note run = run [unfolded bnd_lift_Inr [OF 4] bnd_py_print bnd_guarded_reshape]
  obtain time where 5: "GaussianFourierEmbedding lib (time_embedding_dim a) (modules ps) (expand_last t) = Inr time"
    using run by (cases "GaussianFourierEmbedding lib (time_embedding_dim a) (modules ps) (expand_last t)") (simp_all add: bnd_lift)
  note run = run [unfolded bnd_lift_Inr [OF 5] bnd_py_print]
  obtain ctokens where 6: "conditioning a ps cm n tokens = Inr ctokens"
    using run by (cases "conditioning a ps cm n tokens") (simp_all add: bnd_lift)
  from 1 2 3 4 5 6 show thesis by (rule that)
qed


lemma structured_model_run:
  assumes "unpack3 (shape data) = Inr n"
    and "reshape_neg1 [n] data_id = Inr ids"
    and "reshape_neg1 [n] condition_mask = Inr cm"
    and "ScalarTokenizer lib (token_dim a) (num_nodes a) (modules ps) ids data meta_data = Inr tokens"
    and "GaussianFourierEmbedding lib (time_embedding_dim a) (modules ps) (expand_last t) = Inr time"
    and "conditioning a ps cm n tokens = Inr ctokens"
  shows "structured_model lib a ps t data data_id condition_mask meta_data edge_mask_arg w =
     forward_pass lib a ps t ctokens time
       (case edge_mask_arg of Omitted \<Rightarrow> base_mask a | Given m \<Rightarrow> m)
       (w @ [Print [Txt ''Initial shapes - data: '', Shp (shape data),
                     Txt '', data_id: '', Shp (shape data_id),
                     Txt '', condition_mask: '', Shp (shape condition_mask),
                     Txt '', meta_data: '',
                     (case meta_data of None \<Rightarrow> Txt ''None'' | Some md \<Rightarrow> Shp (shape md))],
             Print [Txt ''Reshaped data_id: '', Shp (shape ids),
                     Txt '', condition_mask: '', Shp (shape cm)],
             Print [Txt ''Tokens shape: '', Shp (shape tokens)],
             Print [Txt ''Time embedding shape: '', Shp (shape time)],
             Print [Txt ''Conditioned tokens shape: '', Shp (shape ctokens)]])"
  unfolding structured_model_def Let_def
  by (simp add: bnd_py_print bnd_lift_Inr [OF assms(1)] bnd_lift_Inr [OF assms(2)] bnd_lift_Inr [OF assms(3)]
      bnd_lift_Inr [OF assms(4)] bnd_lift_Inr [OF assms(5)] bnd_lift_Inr [OF assms(6)])

lemma structured_model_success:
  assumes "fst (structured_model lib a ps t data data_id condition_mask meta_data edge_mask_arg w) = Inr out"
  obtains n ids cm tokens time ctokens where
    "unpack3 (shape data) = Inr n"
    and "reshape_neg1 [n] data_id = Inr ids"
    and "reshape_neg1 [n] condition_mask = Inr cm"
    and "ScalarTokenizer lib (token_dim a) (num_nodes a) (modules ps) ids data meta_data = Inr tokens"
    and "GaussianFourierEmbedding lib (time_embedding_dim a) (modules ps) (expand_last t) = Inr time"
    and "conditioning a ps cm n tokens = Inr ctokens"
proof -
  note run = assms [unfolded structured_model_def Let_def]
  obtain n where 1: "unpack3 (shape data) = Inr n"
    using run by (cases "unpack3 (shape data)") (simp_all add: bnd_lift)
  note run = run [unfolded bnd_lift_Inr [OF 1] bnd_py_print]
  obtain ids where 2: "reshape_neg1 [n] data_id = Inr ids"
    using run by (cases "reshape_neg1 [n] data_id") (simp_all add: bnd_lift)
  note run = run [unfolded bnd_lift_Inr [OF 2] bnd_py_print]
  obtain cm where 3: "reshape_neg1 [n] condition_mask = Inr cm"
    using run by (cases "reshape_neg1 [n] condition_mask") (simp_all add: bnd_lift)
  note run = run [unfolded bnd_lift_Inr [OF 3] bnd_py_print]
  obtain tokens where 4: "ScalarTokenizer lib (token_dim a) (num_nodes a) (modules ps) ids data meta_data = Inr tokens"
    using run by (cases "ScalarTokenizer lib (token_dim a) (num_nodes a) (modules ps) ids data meta_data") (simp_all add: bnd_lift)
  note run = run [unfolded bnd_lift_Inr [OF 4] bnd_py_print]
  obtain time where 5: "GaussianFourierEmbedding lib (time_embedding_dim a) (modules ps) (expand_last t) = Inr time"
    using run by (cases "GaussianFourierEmbedding lib (time_embedding_dim a) (modules ps) (expand_last t)") (simp_all add: bnd_lift)
  note run = run [unfolded bnd_lift_Inr [OF 5] bnd_py_print]
  obtain ctokens where 6: "conditioning a ps cm n tokens = Inr ctokens"
    using run by (cases "conditioning a ps cm n tokens") (simp_all add: bnd_lift)
  from 1 2 3 4 5 6 show thesis by (rule that)
qed

lemma call_scale_run:
  "call_scale f t x w =
     (case f of None \<Rightarrow> (Inl NotCallable, w) | Some g \<Rightarrow> (g t x, w @ [ScaleCall t x]))"
  by (simp add: call_scale_def lift_def bnd_def emit_def split: option.splits)

lemma bnd_call_scale:
  "bnd (call_scale f t x) k w =
     (case f of
        None \<Rightarrow> (Inl NotCallable, w)
      | Some g \<Rightarrow> (case g t x of Inl e \<Rightarrow> (Inl e, w @ [ScaleCall t x]) | Inr v \<Rightarrow> k v (w @ [ScaleCall t x])))"
  by (simp add: bnd_def call_scale_run split: option.splits sum.splits)

text \<open>The forward pass in one equation: where it stops and what it has appended.\<close>

lemma forward_pass_run:
  "forward_pass lib a ps t tokens time em w =
     (case Transformer lib (num_heads a) (num_layers a) (attn_size a) (widening_factor a)
             (num_hidden_layers a) (act a) (skip_connection_attn a) (skip_connection_mlp a)
             (modules ps) tokens time em of
        Inl e \<Rightarrow> (Inl e, w)
      | Inr h \<Rightarrow>
          (case hk_linear ps 0 1 h of
             Inl e \<Rightarrow> (Inl e, w @ [Print [Txt ''Transformer output shape: '', Shp (shape h)]])
           | Inr proj \<Rightarrow>
               (case output_scale_fn a of
                  None \<Rightarrow> (Inl NotCallable, w @ [Print [Txt ''Transformer output shape: '', Shp (shape h)]])
                | Some g \<Rightarrow>
                    (case g t proj of
                       Inl e \<Rightarrow> (Inl e, w @ [Print [Txt ''Transformer output shape: '', Shp (shape h)],
                                              ScaleCall t proj])
                     | Inr out \<Rightarrow> (Inr out, w @ [Print [Txt ''Transformer output shape: '', Shp (shape h)],
                                                  ScaleCall t proj,
                                                  Print [Txt ''Final output shape: '', Shp (shape out)]])))))"
  unfolding forward_pass_def
  by (simp add: bnd_lift bnd_py_print bnd_call_scale ret_def split: sum.splits option.splits)

lemma forward_pass_success:
  assumes "fst (forward_pass lib a ps t tokens time em w) = Inr out"
  obtains h proj g where
    "Transformer lib (num_heads a) (num_layers a) (attn_size a) (widening_factor a)
       (num_hidden_layers a) (act a) (skip_connection_attn a) (skip_connection_mlp a)
       (modules ps) tokens time em = Inr h"
    and "hk_linear ps 0 1 h = Inr proj"
    and "output_scale_fn a = Some g" and "g t proj = Inr out"
    and "snd (forward_pass lib a ps t tokens time em w) =
           w @ [Print [Txt ''Transformer output shape: '', Shp (shape h)], ScaleCall t proj,
                Print [Txt ''Final output shape: '', Shp (shape out)]]"
  using assms unfolding forward_pass_run
  by (auto split: sum.splits option.splits)

subsection \<open>What the factories return\<close>

lemma conditional_mlp_eq:
  "conditional_mlp lib a =
     Some (InitFn (score_net lib (default_output_scale a)), score_net lib (default_output_scale a))"
  by (simp add: conditional_mlp_def hk_transform_def without_apply_rng_def Let_def)

lemma scalar_transformer_model_eq:
  "scalar_transformer_model lib a =
     Some (InitFn (model lib (rebind_args a)), model lib (rebind_args a))"
  by (simp add: scalar_transformer_model_def hk_transform_def without_apply_rng_def Let_def)

lemma structured_transformer_model_eq: "structured_transformer_model lib a = None"
  by (simp add: structured_transformer_model_def Let_def)

subsection \<open>The guarded reshape\<close>

lemma outcome_guarded_reshape [simp]: "outcome (guarded_reshape tokens n d) = Inr ()"
  by (simp add: outcome_def guarded_reshape_run)

lemma logs_model_without_reshape [simp]:
  "logs (model_without_reshape lib a ps t data data_id cm md em)"
  by (simp add: model_without_reshape_def Let_def)

lemma outcome_bnd_cong:
  assumes "logs m" and "\<And>v. logs (f v)" and "\<And>v. logs (g v)"
    and "\<And>v. outcome m = Inr v \<Longrightarrow> outcome (f v) = outcome (g v)"
  shows "outcome (bnd m f) = outcome (bnd m g)"
  using assms(4) by (simp add: outcome_bnd assms(1-3) split: sum.splits)

lemma outcome_bnd_unit:
  assumes "logs m" and "\<And>v. logs (f v)" and "outcome m = Inr ()"
  shows "outcome (bnd m f) = outcome (f ())"
  by (simp add: outcome_bnd assms)

lemma outcome_model_without:
  "outcome (model lib a ps t data data_id cm md em) =
   outcome (model_without_reshape lib a ps t data data_id cm md em)"
  unfolding model_def model_without_reshape_def Let_def
  apply (intro outcome_bnd_cong)
  apply (simp_all add: outcome_bnd_unit)
  done

subsection \<open>The call of the scaling function\<close>

lemma score_net_success:
  assumes "fst (score_net lib a ps t x c w) = Inr out"
  obtains xc te l pre h proj g where
    "concat_last x c = Inr xc"
    and "GaussianFourierEmbedding lib (hidden_dim a) (modules ps) (expand_last t) = Inr te"
    and "hk_linear ps 0 (hidden_dim a) xc = Inr l"
    and "binop fadd l te = Inr pre"
    and "hidden_loop lib a ps te 0 (nat (num_hidden a - 1)) (activation a pre) = Inr h"
    and "hk_linear ps (Suc (nat (num_hidden a - 1))) (output_dim a) h = Inr proj"
    and "output_scale_fn a = Some g" and "g t proj = Inr out"
    and "snd (score_net lib a ps t x c w) = w @ [ScaleCall t proj]"
proof -
  note run = assms [unfolded score_net_def]
  obtain xc where 1: "concat_last x c = Inr xc"
    using run by (cases "concat_last x c") (simp_all add: bnd_lift)
  note run = run [unfolded bnd_lift_Inr [OF 1]]
  obtain te where 2: "GaussianFourierEmbedding lib (hidden_dim a) (modules ps) (expand_last t) = Inr te"
    using run
    by (cases "GaussianFourierEmbedding lib (hidden_dim a) (modules ps) (expand_last t)")
      (simp_all add: bnd_lift)
  note run = run [unfolded bnd_lift_Inr [OF 2]]
  obtain l where 3: "hk_linear ps 0 (hidden_dim a) xc = Inr l"
    using run by (cases "hk_linear ps 0 (hidden_dim a) xc") (simp_all add: bnd_lift)
  note run = run [unfolded bnd_lift_Inr [OF 3]]
  obtain pre where 4: "binop fadd l te = Inr pre"
    using run by (cases "binop fadd l te") (simp_all add: bnd_lift)
  note run = run [unfolded bnd_lift_Inr [OF 4]]
  obtain h where 5: "hidden_loop lib a ps te 0 (nat (num_hidden a - 1)) (activation a pre) = Inr h"
    using run
    by (cases "hidden_loop lib a ps te 0 (nat (num_hidden a - 1)) (activation a pre)")
      (simp_all add: bnd_lift)
  note run = run [unfolded bnd_lift_Inr [OF 5]]
  obtain proj where 6: "hk_linear ps (Suc (nat (num_hidden a - 1))) (output_dim a) h = Inr proj"
    using run
    by (cases "hk_linear ps (Suc (nat (num_hidden a - 1))) (output_dim a) h")
      (simp_all add: bnd_lift)
  note run = run [unfolded bnd_lift_Inr [OF 6] bnd_call_scale]
  obtain g where 7: "output_scale_fn a = Some g"
    using run by (cases "output_scale_fn a") simp_all
  from run have 8: "g t proj = Inr out"
    unfolding 7 by (cases "g t proj") (simp_all add: ret_def)
  have 9: "snd (score_net lib a ps t x c w) = w @ [ScaleCall t proj]"
    unfolding score_net_def bnd_lift_Inr [OF 1] bnd_lift_Inr [OF 2] bnd_lift_Inr [OF 3]
      bnd_lift_Inr [OF 4] bnd_lift_Inr [OF 5] bnd_lift_Inr [OF 6] bnd_call_scale
    by (simp add: 7 8 ret_def)
  from 1 2 3 4 5 6 7 8 9 show thesis by (rule that)
qed

lemma default_output_scale_cases:
  "output_scale_fn (default_output_scale a) = Some g \<Longrightarrow> g t proj = Inr out \<Longrightarrow>
     (case output_scale_fn a of None \<Rightarrow> out = proj | Some g' \<Rightarrow> g' t proj = Inr out)"
  by (auto simp: default_output_scale_def default_scale_def split: option.splits if_splits)

lemma output_scale_fn_rebind [simp]:
  "output_scale_fn (rebind_args a) = output_scale_fn (default_output_scale a)"
  by (simp add: rebind_args_def Let_def)

lemma model_scale_once:
  assumes "fst (model lib a ps t data data_id cm md em w) = Inr out"
  obtains n ids cm' tokens time ctokens h proj g where
    "unpack3 (shape data) = Inr n"
    and "reshape_neg1 [n] data_id = Inr ids"
    and "reshape_neg1 [n] cm = Inr cm'"
    and "ScalarTokenizer lib (token_dim a) (num_nodes a) (modules ps) ids data md = Inr tokens"
    and "GaussianFourierEmbedding lib (time_embedding_dim a) (modules ps) (expand_last t) = Inr time"
    and "conditioning a ps cm' n tokens = Inr ctokens"
    and "Transformer lib (num_heads a) (num_layers a) (attn_size a) (widening_factor a)
           (num_hidden_layers a) (act a) (skip_connection_attn a) (skip_connection_mlp a)
           (modules ps) ctokens time (case em of Omitted \<Rightarrow> base_mask a | Given m \<Rightarrow> m) = Inr h"
    and "hk_linear ps 0 1 h = Inr proj"
    and "output_scale_fn a = Some g" and "g t proj = Inr out"
    and "scale_calls (drop (length w) (snd (model lib a ps t data data_id cm md em w))) = [ScaleCall t proj]"
proof -
  from assms obtain n ids cm' tokens time ctokens where
    s: "unpack3 (shape data) = Inr n" "reshape_neg1 [n] data_id = Inr ids"
      "reshape_neg1 [n] cm = Inr cm'"
      "ScalarTokenizer lib (token_dim a) (num_nodes a) (modules ps) ids data md = Inr tokens"
      "GaussianFourierEmbedding lib (time_embedding_dim a) (modules ps) (expand_last t) = Inr time"
      "conditioning a ps cm' n tokens = Inr ctokens"
    by (rule model_success)
  note run = model_run [OF s, of em w]
  from assms [unfolded run] obtain h proj g where
    f: "Transformer lib (num_heads a) (num_layers a) (attn_size a) (widening_factor a)
           (num_hidden_layers a) (act a) (skip_connection_attn a) (skip_connection_mlp a)
           (modules ps) ctokens time (case em of Omitted \<Rightarrow> base_mask a | Given m \<Rightarrow> m) = Inr h"
      "hk_linear ps 0 1 h = Inr proj" "output_scale_fn a = Some g" "g t proj = Inr out"
    and e: "snd (model lib a ps t data data_id cm md em w) = w @
       [Print [Txt ''Model called with data shape: '', Shp (shape data),
               Txt '', data_id shape: '', Shp (shape data_id),
               Txt '', condition_mask shape: '', Shp (shape cm)],
        Print [Txt ''Tokenizer called with data_id shape: '', Shp (shape ids),
               Txt '' and data shape: '', Shp (shape data)],
        Print [Txt ''Tokens shape before reshaping: '', Shp (shape tokens)],
        Print (case reshape_neg1 [n, token_dim a] tokens of
                 Inl e \<Rightarrow> [Txt ''Error reshaping tokens: '', Exc e]
               | Inr reshaped_tokens \<Rightarrow> [Txt ''Reshaped tokens shape: '', Shp (shape reshaped_tokens)]),
        Print [Txt ''Time embedding shape: '', Shp (shape time)],
        Print [Txt ''Conditioned tokens shape: '', Shp (shape ctokens)]] @
       [Print [Txt ''Transformer output shape: '', Shp (shape h)], ScaleCall t proj,
        Print [Txt ''Final output shape: '', Shp (shape out)]]"
    unfolding run by (rule forward_pass_success) simp
  have "scale_calls (drop (length w) (snd (model lib a ps t data data_id cm md em w))) = [ScaleCall t proj]"
    unfolding e by (simp add: scale_calls_def)
  with s f show thesis by (rule that)
qed

lemma structured_model_scale_once:
  assumes "fst (structured_model lib a ps t data data_id cm md em w) = Inr out"
  obtains n ids cm' tokens time ctokens h proj g where
    "unpack3 (shape data) = Inr n"
    and "reshape_neg1 [n] data_id = Inr ids"
    and "reshape_neg1 [n] cm = Inr cm'"
    and "ScalarTokenizer lib (token_dim a) (num_nodes a) (modules ps) ids data md = Inr tokens"
    and "GaussianFourierEmbedding lib (time_embedding_dim a) (modules ps) (expand_last t) = Inr time"
    and "conditioning a ps cm' n tokens = Inr ctokens"
    and "Transformer lib (num_heads a) (num_layers a) (attn_size a) (widening_factor a)
           (num_hidden_layers a) (act a) (skip_connection_attn a) (skip_connection_mlp a)
           (modules ps) ctokens time (case em of Omitted \<Rightarrow> base_mask a | Given m \<Rightarrow> m) = Inr h"
    and "hk_linear ps 0 1 h = Inr proj"
    and "output_scale_fn a = Some g" and "g t proj = Inr out"
    and "scale_calls (drop (length w) (snd (structured_model lib a ps t data data_id cm md em w))) = [ScaleCall t proj]"
proof -
  from assms obtain n ids cm' tokens time ctokens where
    s: "unpack3 (shape data) = Inr n" "reshape_neg1 [n] data_id = Inr ids"
      "reshape_neg1 [n] cm = Inr cm'"
      "ScalarTokenizer lib (token_dim a) (num_nodes a) (modules ps) ids data md = Inr tokens"
      "GaussianFourierEmbedding lib (time_embedding_dim a) (modules ps) (expand_last t) = Inr time"
      "conditioning a ps cm' n tokens = Inr ctokens"
    by (rule structured_model_success)
  note run = structured_model_run [OF s, of em w]
  from assms [unfolded run] obtain h proj g where
    f: "Transformer lib (num_heads a) (num_layers a) (attn_size a) (widening_factor a)
           (num_hidden_layers a) (act a) (skip_connection_attn a) (skip_connection_mlp a)
           (modules ps) ctokens time (case em of Omitted \<Rightarrow> base_mask a | Given m \<Rightarrow> m) = Inr h"
      "hk_linear ps 0 1 h = Inr proj" "output_scale_fn a = Some g" "g t proj = Inr out"
    and e: "snd (structured_model lib a ps t data data_id cm md em w) = w @
       [Print [Txt ''Initial shapes - data: '', Shp (shape data),
               Txt '', data_id: '', Shp (shape data_id),
               Txt '', condition_mask: '', Shp (shape cm),
               Txt '', meta_data: '',
               (case md of None \<Rightarrow> Txt ''None'' | Some md \<Rightarrow> Shp (shape md))],
        Print [Txt ''Reshaped data_id: '', Shp (shape ids),
               Txt '', condition_mask: '', Shp (shape cm')],
        Print [Txt ''Tokens shape: '', Shp (shape tokens)],
        Print [Txt ''Time embedding shape: '', Shp (shape time)],
        Print [Txt ''Conditioned tokens shape: '', Shp (shape ctokens)]] @
       [Print [Txt ''Transformer output shape: '', Shp (shape h)], ScaleCall t proj,
        Print [Txt ''Final output shape: '', Shp (shape out)]]"
    unfolding run by (rule forward_pass_success) simp
  have "scale_calls (drop (length w) (snd (structured_model lib a ps t data data_id cm md em w))) = [ScaleCall t proj]"
    unfolding e by (simp add: scale_calls_def)
  with s f show thesis by (rule that)
qed

subsection \<open>Conditioning switched off\<close>

lemma condition_mode_default [simp]: "condition_mode (default_output_scale a) = condition_mode a"
  by (simp add: default_output_scale_def)

lemma condition_mode_rebind [simp]: "condition_mode (rebind_args a) = condition_mode a"
  by (simp add: rebind_args_def Let_def)

lemma conditioning_none: "condition_mode a = ''none'' \<Longrightarrow> conditioning a ps cm n tokens = Inr tokens"
  by (simp add: conditioning_def)

lemma bnd_ext_cong: "(\<And>v. f v = g v) \<Longrightarrow> bnd m f = bnd m g"
proof -
  assume "\<And>v. f v = g v"
  then have "f = g" by (rule ext)
  then show ?thesis by simp
qed

lemma bnd_reshape_cong:
  assumes "shape c1 = shape c2" and "\<And>x y. shape x = shape y \<Longrightarrow> f x = g y"
  shows "bnd (lift (reshape_neg1 r c1)) f = bnd (lift (reshape_neg1 r c2)) g"
proof
  fix w
  show "bnd (lift (reshape_neg1 r c1)) f w = bnd (lift (reshape_neg1 r c2)) g w"
    using assms(1) assms(2) [of "Tensor (numel c1 div prod_list r # r) (elems c1)"
        "Tensor (numel c2 div prod_list r # r) (elems c2)"]
    by (simp add: bnd_lift reshape_neg1_def numel_def Let_def)
qed

lemma model_none_mask:
  assumes "condition_mode a = ''none''" and "shape cm1 = shape cm2"
  shows "model lib a ps t data data_id cm1 md em = model lib a ps t data data_id cm2 md em"
  unfolding model_def Let_def assms(2)
  apply (intro bnd_ext_cong bnd_reshape_cong)
   apply (rule assms(2))
  apply (simp only: conditioning_none [OF assms(1)])
  done

lemma structured_model_none_mask:
  assumes "condition_mode a = ''none''" and "shape cm1 = shape cm2"
  shows "structured_model lib a ps t data data_id cm1 md em = structured_model lib a ps t data data_id cm2 md em"
  unfolding structured_model_def Let_def assms(2)
  apply (intro bnd_ext_cong bnd_reshape_cong)
   apply (rule assms(2))
  apply (simp only: conditioning_none [OF assms(1)])
  done

lemma hk_linear_token_param:
  "hk_linear (ps\<lparr>own := (own ps)(ConditionToken := c)\<rparr>) k d x = hk_linear ps k d x"
  by (simp add: hk_linear_def get_parameter_def)

lemma modules_own_update: "modules (ps\<lparr>own := x\<rparr>) = modules ps"
  by simp

lemma forward_pass_token_param:
  "forward_pass lib a (ps\<lparr>own := (own ps)(ConditionToken := c)\<rparr>) t tokens time em =
   forward_pass lib a ps t tokens time em"
  by (simp add: forward_pass_def hk_linear_token_param)

lemma model_none_param:
  assumes "condition_mode a = ''none''"
  shows "model lib a (ps\<lparr>own := (own ps)(ConditionToken := c)\<rparr>) t data data_id cm md em =
         model lib a ps t data data_id cm md em"
  unfolding model_def Let_def conditioning_none [OF assms] forward_pass_token_param modules_own_update
  by (rule refl)

lemma structured_model_none_param:
  assumes "condition_mode a = ''none''"
  shows "structured_model lib a (ps\<lparr>own := (own ps)(ConditionToken := c)\<rparr>) t data data_id cm md em =
         structured_model lib a ps t data data_id cm md em"
  unfolding structured_model_def Let_def conditioning_none [OF assms] forward_pass_token_param
    modules_own_update
  by (rule refl)

subsection \<open>Shapes\<close>

lemma ebind_Inr_iff: "ebind r f = Inr y \<longleftrightarrow> (\<exists>v. r = Inr v \<and> f v = Inr y)"
  by (cases r) (simp_all add: ebind_def)

lemma reshape_neg1_Inr:
  assumes "reshape_neg1 rest a = Inr b"
  shows "shape b = (numel a div prod_list rest) # rest" and "elems b = elems a"
    and "prod_list rest \<noteq> 0" and "numel a mod prod_list rest = 0"
  using assms by (auto simp: reshape_neg1_def Let_def split: if_splits)

lemma binop_shape: "binop f a b = Inr c \<Longrightarrow> broadcast_shapes (shape a) (shape b) = Some (shape c)"
  by (auto simp: binop_def split: option.splits)

lemma broadcast_to_shape: "broadcast_to a s = Inr c \<Longrightarrow> shape c = s"
  by (auto simp: broadcast_to_def split: if_splits)

lemma concat_last_shape:
  "concat_last a b = Inr c \<Longrightarrow>
     shape a \<noteq> [] \<and> shape b \<noteq> [] \<and> shape c = butlast (shape a) @ [last (shape a) + last (shape b)]"
  by (auto simp: concat_last_def Let_def split: if_splits)

lemma broadcast_mask_token [simp]: "broadcast_shapes [B, N, 1] [1, 1, C] = Some [B, N, C]"
  by (simp add: broadcast_shapes_def)

lemma broadcast_same_lead:
  "broadcast_shapes [B, N, D] [B, N, C] = Some s \<Longrightarrow> \<exists>X. s = [B, N, X]"
  by (auto simp: broadcast_shapes_def split: if_splits)

lemma broadcast_last:
  assumes "broadcast_shapes a b = Some s" and "a \<noteq> []" and "b \<noteq> []" and "last a = last b"
  shows "s \<noteq> [] \<and> last s = last a"
proof -
  from assms(2) obtain x xs where a: "rev a = x # xs" by (cases "rev a") auto
  from assms(3) obtain y ys where b: "rev b = y # ys" by (cases "rev b") auto
  from a have "last a = x" using hd_rev [of a] by simp
  moreover from b have "last b = y" using hd_rev [of b] by simp
  ultimately have "x = y" using assms(4) by simp
  with assms(1) a b obtain r where "s = rev (x # r)"
    by (auto simp: broadcast_shapes_def)
  then show ?thesis using \<open>last a = x\<close> by simp
qed

lemma hk_linear_shape: "hk_linear ps k d x = Inr y \<Longrightarrow> shape x \<noteq> [] \<and> shape y = butlast (shape x) @ [d]"
  by (auto simp: hk_linear_def Let_def ebind_Inr_iff split: if_splits)

lemma conditioning_shape:
  assumes "conditioning a ps cm N tokens = Inr ct"
    and "shape tokens = [B, N, D]" and "shape cm = [B, N]"
  shows "\<exists>X. shape ct = [B, N, X]"
proof (cases "condition_mode a = ''none''")
  case True
  with assms show ?thesis by (simp add: conditioning_def)
next
  case False
  with assms(1) obtain tok m gated where
    tok: "get_parameter ps ConditionToken [1, 1, condition_token_dim a] = Inr tok"
    and m: "reshape_neg1 [N, 1] cm = Inr m"
    and gated: "binop fmul m tok = Inr gated"
    and rest: "(if condition_mode a = ''add'' then binop fadd tokens gated
                else if condition_mode a = ''concat'' then
                  ebind (broadcast_to gated (butlast (shape tokens) @ [condition_token_dim a]))
                    (\<lambda>condition_token. concat_last tokens condition_token)
                else Inr tokens) = Inr ct"
    by (auto simp: conditioning_def ebind_Inr_iff)
  from tok have st: "shape tok = [1, 1, condition_token_dim a]"
    by (auto simp: get_parameter_def split: option.splits if_splits)
  from reshape_neg1_Inr [OF m] assms(3) have sm: "shape m = [B, N, 1]"
    by (simp add: numel_def)
  from binop_shape [OF gated, unfolded st sm broadcast_mask_token]
  have sg: "shape gated = [B, N, condition_token_dim a]"
    by simp
  show ?thesis
  proof (cases "condition_mode a = ''add''")
    case True
    with rest have "binop fadd tokens gated = Inr ct" by simp
    from binop_shape [OF this] show ?thesis
      using broadcast_same_lead [of B N D "condition_token_dim a" "shape ct"]
      by (simp add: assms(2) sg)
  next
    case na: False
    show ?thesis
    proof (cases "condition_mode a = ''concat''")
      case True
      with rest na obtain c where c: "broadcast_to gated (butlast (shape tokens) @ [condition_token_dim a]) = Inr c"
        and cc: "concat_last tokens c = Inr ct"
        by (auto simp: ebind_Inr_iff)
      from concat_last_shape [OF cc] show ?thesis
        by (simp add: assms(2))
    next
      case False
      with rest na assms(2) show ?thesis by simp
    qed
  qed
qed

lemma forward_pass_shape:
  assumes "fst (forward_pass lib a ps t tokens time em w) = Inr out"
    and "transformer_shape_ok lib" and "scale_shape_ok (output_scale_fn a)"
  shows "shape out = butlast (shape tokens) @ [1]"
proof -
  from assms(1) obtain h proj g where
    h: "Transformer lib (num_heads a) (num_layers a) (attn_size a) (widening_factor a)
       (num_hidden_layers a) (act a) (skip_connection_attn a) (skip_connection_mlp a)
       (modules ps) tokens time em = Inr h"
    and p: "hk_linear ps 0 1 h = Inr proj"
    and g: "output_scale_fn a = Some g" "g t proj = Inr out"
    by (rule forward_pass_success)
  from assms(2) h have "butlast (shape h) = butlast (shape tokens)"
    unfolding transformer_shape_ok_def by blast
  moreover from hk_linear_shape [OF p] have "shape proj = butlast (shape h) @ [1]" by simp
  moreover from assms(3) g have "shape out = shape proj"
    by (auto simp: scale_shape_ok_def)
  ultimately show ?thesis by simp
qed

lemma scale_shape_ok_default: "scale_shape_ok f \<Longrightarrow> output_scale_fn a = f \<Longrightarrow>
    scale_shape_ok (output_scale_fn (default_output_scale a))"
  by (auto simp: scale_shape_ok_def default_output_scale_def default_scale_def split: option.splits)

lemma model_shape:
  assumes "fst (model lib a ps t data data_id cm md em w) = Inr out"
    and "tokenizer_shape_ok lib" and "transformer_shape_ok lib" and "scale_shape_ok (output_scale_fn a)"
    and "shape data = [B, N, 1]" and "numel data_id = B * N" and "numel cm = B * N"
  shows "shape out = [B, N, 1]"
proof -
  from assms(1) obtain n ids cm' tokens time ctokens where
    s: "unpack3 (shape data) = Inr n" "reshape_neg1 [n] data_id = Inr ids"
      "reshape_neg1 [n] cm = Inr cm'"
      "ScalarTokenizer lib (token_dim a) (num_nodes a) (modules ps) ids data md = Inr tokens"
      "GaussianFourierEmbedding lib (time_embedding_dim a) (modules ps) (expand_last t) = Inr time"
      "conditioning a ps cm' n tokens = Inr ctokens"
    by (rule model_success)
  from s(1) assms(5) have n: "n = N" by (simp add: unpack3_def)
  from reshape_neg1_Inr [OF s(2)] have ids: "shape ids = [B, N]"
    by (simp add: n assms(6))
  from reshape_neg1_Inr [OF s(3)] have cm': "shape cm' = [B, N]"
    by (simp add: n assms(7))
  from assms(2) ids assms(5) s(4) have tk: "shape tokens = [B, N, token_dim a]"
    unfolding tokenizer_shape_ok_def by blast
  from conditioning_shape [OF s(6) [unfolded n] tk cm'] obtain X where X: "shape ctokens = [B, N, X]" ..
  from assms(1) [unfolded model_run [OF s]] have "shape out = butlast (shape ctokens) @ [1]"
    by (rule forward_pass_shape) (rule assms)+
  with X show ?thesis by simp
qed

lemma structured_model_shape:
  assumes "fst (structured_model lib a ps t data data_id cm md em w) = Inr out"
    and "tokenizer_shape_ok lib" and "transformer_shape_ok lib" and "scale_shape_ok (output_scale_fn a)"
    and "shape data = [B, N, 1]" and "numel data_id = B * N" and "numel cm = B * N"
  shows "shape out = [B, N, 1]"
proof -
  from assms(1) obtain n ids cm' tokens time ctokens where
    s: "unpack3 (shape data) = Inr n" "reshape_neg1 [n] data_id = Inr ids"
      "reshape_neg1 [n] cm = Inr cm'"
      "ScalarTokenizer lib (token_dim a) (num_nodes a) (modules ps) ids data md = Inr tokens"
      "GaussianFourierEmbedding lib (time_embedding_dim a) (modules ps) (expand_last t) = Inr time"
      "conditioning a ps cm' n tokens = Inr ctokens"
    by (rule structured_model_success)
  from s(1) assms(5) have n: "n = N" by (simp add: unpack3_def)
  from reshape_neg1_Inr [OF s(2)] have ids: "shape ids = [B, N]"
    by (simp add: n assms(6))
  from reshape_neg1_Inr [OF s(3)] have cm': "shape cm' = [B, N]"
    by (simp add: n assms(7))
  from assms(2) ids assms(5) s(4) have tk: "shape tokens = [B, N, token_dim a]"
    unfolding tokenizer_shape_ok_def by blast
  from conditioning_shape [OF s(6) [unfolded n] tk cm'] obtain X where X: "shape ctokens = [B, N, X]" ..
  from assms(1) [unfolded structured_model_run [OF s]] have "shape out = butlast (shape ctokens) @ [1]"
    by (rule forward_pass_shape) (rule assms)+
  with X show ?thesis by simp
qed

lemma ex_lib_tokenizer_shape_ok: "tokenizer_shape_ok ex_lib"
  by (auto simp: tokenizer_shape_ok_def ex_lib_def)

lemma ex_lib_tokenizer_width_ok: "tokenizer_width_ok ex_lib"
  by (auto simp: tokenizer_width_ok_def ex_lib_def)

lemma ex_lib_transformer_shape_ok: "transformer_shape_ok ex_lib"
  by (auto simp: transformer_shape_ok_def ex_lib_def)

lemma token_dim_default [simp]:
  "token_dim (default_output_scale a) = token_dim a"
  "condition_token_dim (default_output_scale a) = condition_token_dim a"
  by (simp_all add: default_output_scale_def)

lemma rebind_dims:
  "token_dim (rebind_args a) =
     (if condition_mode a = ''add'' \<or> condition_mode a = ''none''
      then token_dim a + condition_token_dim a else token_dim a)"
  "condition_token_dim (rebind_args a) =
     (if condition_mode a = ''add'' then token_dim a + condition_token_dim a
      else if condition_mode a = ''none'' then 0 else condition_token_dim a)"
  by (simp_all add: rebind_args_def Let_def)

lemma conditioning_width:
  assumes "conditioning a ps cm n tokens = Inr ct"
    and "shape tokens \<noteq> []"
  shows "shape ct \<noteq> [] \<and>
         (condition_mode a = ''concat'' \<longrightarrow>
            last (shape ct) = last (shape tokens) + condition_token_dim a) \<and>
         (condition_mode a = ''add'' \<and> last (shape tokens) = condition_token_dim a \<longrightarrow>
            last (shape ct) = last (shape tokens)) \<and>
         (condition_mode a \<noteq> ''concat'' \<and> condition_mode a \<noteq> ''add'' \<longrightarrow>
            last (shape ct) = last (shape tokens))"
proof (cases "condition_mode a = ''none''")
  case True
  with assms show ?thesis by (simp add: conditioning_def)
next
  case False
  with assms(1) obtain tok m gated where
    tok: "get_parameter ps ConditionToken [1, 1, condition_token_dim a] = Inr tok"
    and m: "reshape_neg1 [n, 1] cm = Inr m"
    and gated: "binop fmul m tok = Inr gated"
    and rest: "(if condition_mode a = ''add'' then binop fadd tokens gated
                else if condition_mode a = ''concat'' then
                  ebind (broadcast_to gated (butlast (shape tokens) @ [condition_token_dim a]))
                    (\<lambda>condition_token. concat_last tokens condition_token)
                else Inr tokens) = Inr ct"
    by (auto simp: conditioning_def ebind_Inr_iff)
  from tok have st: "shape tok = [1, 1, condition_token_dim a]"
    by (auto simp: get_parameter_def split: option.splits if_splits)
  from reshape_neg1_Inr(1) [OF m] have sm: "shape m = [numel cm div prod_list [n, 1], n, 1]"
    by simp
  from binop_shape [OF gated, unfolded st sm broadcast_mask_token]
  have sg: "shape gated = [numel cm div prod_list [n, 1], n, condition_token_dim a]"
    by simp
  show ?thesis
  proof (cases "condition_mode a = ''add''")
    case True
    with rest have r: "binop fadd tokens gated = Inr ct" by simp
    show ?thesis
    proof (cases "last (shape tokens) = condition_token_dim a")
      case eq: True
      from broadcast_last [OF binop_shape [OF r] assms(2)] sg eq
      show ?thesis using True by simp
    next
      case False
      from binop_shape [OF r] assms(2) have "shape ct \<noteq> []"
        by (cases "rev (shape tokens)") (auto simp: broadcast_shapes_def sg split: if_splits)
      with True False show ?thesis by simp
    qed
  next
    case na: False
    show ?thesis
    proof (cases "condition_mode a = ''concat''")
      case True
      with rest na obtain c where c: "broadcast_to gated (butlast (shape tokens) @ [condition_token_dim a]) = Inr c"
        and cc: "concat_last tokens c = Inr ct"
        by (auto simp: ebind_Inr_iff)
      from concat_last_shape [OF cc] broadcast_to_shape [OF c] True show ?thesis
        by simp
    next
      case False
      with rest na assms(2) show ?thesis by simp
    qed
  qed
qed


lemma model_transformer_input:
  assumes "fst (model lib a ps t data data_id cm md em w) = Inr out"
  obtains n ids cm' tokens time ctokens h where
    "ScalarTokenizer lib (token_dim a) (num_nodes a) (modules ps) ids data md = Inr tokens"
    and "conditioning a ps cm' n tokens = Inr ctokens"
    and "Transformer lib (num_heads a) (num_layers a) (attn_size a) (widening_factor a)
       (num_hidden_layers a) (act a) (skip_connection_attn a) (skip_connection_mlp a)
       (modules ps) ctokens time (case em of Omitted \<Rightarrow> base_mask a | Given m \<Rightarrow> m) = Inr h"
proof -
  from assms obtain n ids cm' tokens time ctokens where
    s: "unpack3 (shape data) = Inr n" "reshape_neg1 [n] data_id = Inr ids"
      "reshape_neg1 [n] cm = Inr cm'"
      "ScalarTokenizer lib (token_dim a) (num_nodes a) (modules ps) ids data md = Inr tokens"
      "GaussianFourierEmbedding lib (time_embedding_dim a) (modules ps) (expand_last t) = Inr time"
      "conditioning a ps cm' n tokens = Inr ctokens"
    by (rule model_success)
  from assms [unfolded model_run [OF s]] obtain h where
    "Transformer lib (num_heads a) (num_layers a) (attn_size a) (widening_factor a)
       (num_hidden_layers a) (act a) (skip_connection_attn a) (skip_connection_mlp a)
       (modules ps) ctokens time (case em of Omitted \<Rightarrow> base_mask a | Given m \<Rightarrow> m) = Inr h"
    by (rule forward_pass_success)
  with s(4,6) show thesis by (rule that)
qed

lemma structured_model_transformer_input:
  assumes "fst (structured_model lib a ps t data data_id cm md em w) = Inr out"
  obtains n ids cm' tokens time ctokens h where
    "ScalarTokenizer lib (token_dim a) (num_nodes a) (modules ps) ids data md = Inr tokens"
    and "conditioning a ps cm' n tokens = Inr ctokens"
    and "Transformer lib (num_heads a) (num_layers a) (attn_size a) (widening_factor a)
       (num_hidden_layers a) (act a) (skip_connection_attn a) (skip_connection_mlp a)
       (modules ps) ctokens time (case em of Omitted \<Rightarrow> base_mask a | Given m \<Rightarrow> m) = Inr h"
proof -
  from assms obtain n ids cm' tokens time ctokens where
    s: "unpack3 (shape data) = Inr n" "reshape_neg1 [n] data_id = Inr ids"
      "reshape_neg1 [n] cm = Inr cm'"
      "ScalarTokenizer lib (token_dim a) (num_nodes a) (modules ps) ids data md = Inr tokens"
      "GaussianFourierEmbedding lib (time_embedding_dim a) (modules ps) (expand_last t) = Inr time"
      "conditioning a ps cm' n tokens = Inr ctokens"
    by (rule structured_model_success)
  from assms [unfolded structured_model_run [OF s]] obtain h where
    "Transformer lib (num_heads a) (num_layers a) (attn_size a) (widening_factor a)
       (num_hidden_layers a) (act a) (skip_connection_attn a) (skip_connection_mlp a)
       (modules ps) ctokens time (case em of Omitted \<Rightarrow> base_mask a | Given m \<Rightarrow> m) = Inr h"
    by (rule forward_pass_success)
  with s(4,6) show thesis by (rule that)
qed

lemma rebound_width:
  assumes "condition_mode a \<in> {''concat'', ''add'', ''none''}"
    and "tokenizer_width_ok lib"
    and "ScalarTokenizer lib (token_dim (rebind_args a)) nn mp ids data md = Inr tokens"
    and "conditioning (rebind_args a) ps cm n tokens = Inr ctokens"
  shows "last (shape ctokens) = token_dim a + condition_token_dim a"
proof -
  from assms(2,3) have tk: "shape tokens \<noteq> []" "last (shape tokens) = token_dim (rebind_args a)"
    unfolding tokenizer_width_ok_def by blast+
  from conditioning_width [OF assms(4) tk(1)] assms(1) show ?thesis
    by (auto simp: tk(2) rebind_dims)
qed

subsection \<open>Broadcast elements\<close>

lemma length_rows [simp]: "length (rows w k xs) = k"
  by (induction k arbitrary: xs) simp_all









lemma bdims_same [simp]: "bdims xs xs = Some xs"
  by (induction xs) simp_all

lemma broadcast_shapes_same [simp]: "broadcast_shapes s s = Some s"
  by (simp add: broadcast_shapes_def)

lemma left_pad_same [simp]: "left_pad (length s) s = s"
  by (simp add: left_pad_def)





subsection \<open>An all-zero mask\<close>



















subsection \<open>The layers of conditional_mlp\<close>

lemma amended_layers_hidden_loop:
  "amended_layers lib a ps te (Suc j) n h = hidden_loop lib a ps te j n h"
proof (induction n arbitrary: j h)
  case 0
  show ?case by simp
next
  case (Suc n)
  show ?case
    by (simp add: dense_layer_def ebind_def Suc.IH split: sum.splits)
qed

lemma hidden_loop_scale_update:
  "hidden_loop lib (a\<lparr>output_scale_fn := f\<rparr>) ps te j n h = hidden_loop lib a ps te j n h"
proof (induction n arbitrary: j h)
  case 0
  show ?case by simp
next
  case (Suc n)
  have "hidden_loop lib (a\<lparr>output_scale_fn := f\<rparr>) ps te (Suc j) n = hidden_loop lib a ps te (Suc j) n"
    by (rule ext) (rule Suc.IH)
  then show ?case by (simp cong: if_cong)
qed

lemma score_net_outcome:
  "fst (score_net lib a ps t x ctx w) =
     ebind (concat_last x ctx) (\<lambda>x.
     ebind (GaussianFourierEmbedding lib (hidden_dim a) (modules ps) (expand_last t)) (\<lambda>time_embedding.
     ebind (hk_linear ps 0 (hidden_dim a) x) (\<lambda>l.
     ebind (binop fadd l time_embedding) (\<lambda>pre.
     ebind (hidden_loop lib a ps time_embedding 0 (nat (num_hidden a - 1)) (activation a pre)) (\<lambda>h.
     ebind (hk_linear ps (Suc (nat (num_hidden a - 1))) (output_dim a) h) (\<lambda>out.
     case output_scale_fn a of None \<Rightarrow> Inl NotCallable | Some g \<Rightarrow> g t out))))))"
  unfolding score_net_def
  by (simp add: bnd_lift bnd_call_scale ret_def ebind_def split: sum.splits option.splits)

lemma amended_score_net_eq:
  assumes "1 \<le> num_hidden a"
  shows "amended_score_net lib a ps t x ctx =
     ebind (concat_last x ctx) (\<lambda>x.
     ebind (GaussianFourierEmbedding lib (hidden_dim a) (modules ps) (expand_last t)) (\<lambda>time_embedding.
     ebind (hk_linear ps 0 (hidden_dim a) x) (\<lambda>l.
     ebind (binop fadd l time_embedding) (\<lambda>pre.
     ebind (hidden_loop lib a ps time_embedding 0 (nat (num_hidden a - 1)) (activation a pre)) (\<lambda>h.
     hk_linear ps (Suc (nat (num_hidden a - 1))) (output_dim a) h)))))"
proof -
  from assms have n: "nat (num_hidden a) = Suc (nat (num_hidden a - 1))" by simp
  show ?thesis
    unfolding amended_score_net_def n
    by (simp add: dense_layer_def ebind_def amended_layers_hidden_loop split: sum.splits)
qed

section \<open>The claims\<close>

text \<open>
  C1. Each of the three factories returns a pair of a parameter initializer and an apply
  function. \<open>conditional_mlp\<close> and \<open>scalar_transformer_model\<close> do;
  \<open>structured_transformer_model\<close> defines its model function and returns nothing, for
  all arguments.
\<close>

theorem factories_return:
  "(\<exists>init_fn apply_fn. conditional_mlp lib m = Some (init_fn, apply_fn)) \<and>
   (\<exists>init_fn apply_fn. scalar_transformer_model lib a = Some (init_fn, apply_fn)) \<and>
   structured_transformer_model lib s = None"
  by (simp add: conditional_mlp_eq scalar_transformer_model_eq structured_transformer_model_eq)

text \<open>
  C2. For data of shape \<open>(B, N, 1)\<close> with node identifiers and a condition mask of \<open>B * N\<close>
  entries each, every score returned has shape \<open>(B, N, 1)\<close>: one scalar per node per batch
  element. The library modules and the scaling function are assumed to keep shapes as
  described above. Stated for the apply function of \<open>scalar_transformer_model\<close> and the
  model function of \<open>structured_transformer_model\<close>.
\<close>

theorem score_shape:
  assumes "scalar_transformer_model lib a = Some (init_fn, model_fn)"
    and "tokenizer_shape_ok lib" and "transformer_shape_ok lib"
    and "scale_shape_ok (output_scale_fn a)" and "scale_shape_ok (output_scale_fn s)"
    and "shape data = [B, N, 1]" and "numel data_id = B * N" and "numel condition_mask = B * N"
  shows "(fst (model_fn ps t data data_id condition_mask meta_data edge_mask w) = Inr out \<longrightarrow>
            shape out = [B, N, 1]) \<and>
         (fst (structured_model lib (rebind_args s) ps t data data_id condition_mask meta_data
                 edge_mask w) = Inr out \<longrightarrow> shape out = [B, N, 1])"
proof -
  from assms(1) have 2: "model_fn = model lib (rebind_args a)"
    by (simp add: scalar_transformer_model_eq)
  have sa: "scale_shape_ok (output_scale_fn (rebind_args a))"
    using scale_shape_ok_default [OF assms(4) refl] by simp
  have ss: "scale_shape_ok (output_scale_fn (rebind_args s))"
    using scale_shape_ok_default [OF assms(5) refl] by simp
  show ?thesis
    unfolding 2
    using model_shape [OF _ assms(2,3) sa assms(6,7,8)]
      structured_model_shape [OF _ assms(2,3) ss assms(6,7,8)]
    by blast
qed

theorem score_shape_witness:
  "scalar_transformer_model ex_lib ex_args =
     Some (InitFn (model ex_lib (rebind_args ex_args)), model ex_lib (rebind_args ex_args)) \<and>
   tokenizer_shape_ok ex_lib \<and> transformer_shape_ok ex_lib \<and>
   scale_shape_ok (output_scale_fn ex_args) \<and> scale_shape_ok (output_scale_fn ex_structured_args) \<and>
   shape ex_data = [1, 2, 1] \<and> numel ex_data_id = 1 * 2 \<and> numel ex_mask = 1 * 2 \<and>
   fst (model ex_lib (rebind_args ex_args) ex_params ex_t ex_data ex_data_id ex_mask None Omitted []) =
     Inr (Tensor [1, 2, 1] [Fin 3, Fin 9]) \<and>
   fst (structured_model ex_lib (rebind_args ex_structured_args) ex_params ex_t ex_data ex_data_id
          ex_mask None Omitted []) = Inr (Tensor [1, 2, 1] [Fin 3, Fin 9]) \<and>
   shape (Tensor [1, 2, 1] [Fin 3, Fin 9]) = [1, 2, 1]"
proof -
  have 1: "scalar_transformer_model ex_lib ex_args =
     Some (InitFn (model ex_lib (rebind_args ex_args)), model ex_lib (rebind_args ex_args))"
    by (rule scalar_transformer_model_eq)
  have 4: "scale_shape_ok (output_scale_fn ex_args)"
    by (simp add: scale_shape_ok_def ex_args_def)
  have 5: "scale_shape_ok (output_scale_fn ex_structured_args)"
    by (simp add: scale_shape_ok_def ex_args_def ex_structured_args_def transformer_args.defs
        structured_args.defs)
  have 6: "shape ex_data = [1, 2, 1]" by (simp add: ex_data_def)
  have 7: "numel ex_data_id = 1 * 2" by (simp add: ex_data_id_def numel_def)
  have 8: "numel ex_mask = 1 * 2" by (simp add: ex_mask_def numel_def)
  have a: "fst (model ex_lib (rebind_args ex_args) ex_params ex_t ex_data ex_data_id ex_mask None
             Omitted []) = Inr (Tensor [1, 2, 1] [Fin 3, Fin 9])"
    by code_simp
  have b: "fst (structured_model ex_lib (rebind_args ex_structured_args) ex_params ex_t ex_data
             ex_data_id ex_mask None Omitted []) = Inr (Tensor [1, 2, 1] [Fin 3, Fin 9])"
    by code_simp
  from score_shape [OF 1 ex_lib_tokenizer_shape_ok ex_lib_transformer_shape_ok 4 5 6 7 8,
      where ps = ex_params and t = ex_t and meta_data = None and edge_mask = Omitted and w = "[]"
        and out = "Tensor [1, 2, 1] [Fin 3, Fin 9]"]
    1 ex_lib_tokenizer_shape_ok ex_lib_transformer_shape_ok 4 5 6 7 8 a b
  show ?thesis by simp
qed

text \<open>
  C4. Built with \<open>condition_mode = "none"\<close>, the conditioning block returns the tokens it is
  given, and the whole call (result and printed lines) is the same for two condition masks
  of the same shape and for any change of the stored condition token. Stated for the
  apply function of \<open>scalar_transformer_model\<close> and the model function of
  \<open>structured_transformer_model\<close>.
\<close>

theorem none_mode_no_condition:
  assumes "scalar_transformer_model lib a = Some (init_fn, model_fn)"
    and "condition_mode a = ''none''" and "condition_mode s = ''none''"
    and "shape cm1 = shape cm2"
  shows "conditioning (rebind_args a) ps cm n tokens = Inr tokens \<and>
         conditioning (rebind_args s) ps cm n tokens = Inr tokens \<and>
         model_fn ps t data data_id cm1 md em w = model_fn ps t data data_id cm2 md em w \<and>
         model_fn (ps\<lparr>own := (own ps)(ConditionToken := c)\<rparr>) t data data_id cm1 md em w =
           model_fn ps t data data_id cm1 md em w \<and>
         structured_model lib (rebind_args s) ps t data data_id cm1 md em w =
           structured_model lib (rebind_args s) ps t data data_id cm2 md em w \<and>
         structured_model lib (rebind_args s) (ps\<lparr>own := (own ps)(ConditionToken := c)\<rparr>) t data
             data_id cm1 md em w =
           structured_model lib (rebind_args s) ps t data data_id cm1 md em w"
proof -
  from assms(1) have 2: "model_fn = model lib (rebind_args a)"
    by (simp add: scalar_transformer_model_eq)
  have a: "condition_mode (rebind_args a) = ''none''" and s: "condition_mode (rebind_args s) = ''none''"
    using assms(2,3) by simp_all
  show ?thesis
    unfolding 2
    using conditioning_none [OF a] conditioning_none [OF s]
      model_none_mask [OF a assms(4)] model_none_param [OF a]
      structured_model_none_mask [OF s assms(4)] structured_model_none_param [OF s]
    by simp
qed


theorem none_mode_no_condition_witness:
  "scalar_transformer_model ex_lib ex_args_none =
     Some (InitFn (model ex_lib (rebind_args ex_args_none)), model ex_lib (rebind_args ex_args_none)) \<and>
   condition_mode ex_args_none = ''none'' \<and> condition_mode ex_structured_args_none = ''none'' \<and>
   shape ex_mask = shape ex_mask_ones \<and>
   fst (model ex_lib (rebind_args ex_args_none) ex_params ex_t ex_data ex_data_id ex_mask None Omitted []) =
     Inr (Tensor [1, 2, 1] [Fin 6, Fin 8]) \<and>
   fst (model ex_lib (rebind_args ex_args_none) ex_params ex_t ex_data ex_data_id ex_mask_ones None
          Omitted []) = Inr (Tensor [1, 2, 1] [Fin 6, Fin 8]) \<and>
   fst (structured_model ex_lib (rebind_args ex_structured_args_none) ex_params ex_t ex_data ex_data_id
          ex_mask_ones None Omitted []) = Inr (Tensor [1, 2, 1] [Fin 6, Fin 8])"
proof -
  have 1: "scalar_transformer_model ex_lib ex_args_none =
     Some (InitFn (model ex_lib (rebind_args ex_args_none)), model ex_lib (rebind_args ex_args_none))"
    by (rule scalar_transformer_model_eq)
  have 2: "condition_mode ex_args_none = ''none''" by (simp add: ex_args_none_def)
  have 3: "condition_mode ex_structured_args_none = ''none''"
    by (simp add: ex_structured_args_none_def)
  have 4: "shape ex_mask = shape ex_mask_ones" by (simp add: ex_mask_def ex_mask_ones_def)
  have a: "fst (model ex_lib (rebind_args ex_args_none) ex_params ex_t ex_data ex_data_id ex_mask None
             Omitted []) = Inr (Tensor [1, 2, 1] [Fin 6, Fin 8])"
    by code_simp
  have b: "fst (structured_model ex_lib (rebind_args ex_structured_args_none) ex_params ex_t ex_data
             ex_data_id ex_mask None Omitted []) = Inr (Tensor [1, 2, 1] [Fin 6, Fin 8])"
    by code_simp
  from none_mode_no_condition [OF 1 2 3 4, where ps = ex_params and t = ex_t and data = ex_data
      and data_id = ex_data_id and md = None and em = Omitted and w = "[]"] 1 2 3 4 a b
  show ?thesis by simp
qed




text \<open>
  C6. In every apply function the output-scaling function is called exactly once, on the
  result of the final linear projection, and its result is what the call returns; when
  the factory was given no scaling function the returned score is the final projection
  itself. Stated for every call that returns, for the apply functions the two returning
  factories give and for the model function of \<open>structured_transformer_model\<close>. The final
  projection is that of this call: the last dense layer applied to what the hidden layers
  of this call return, in the transformer models to the output of the transformer on the
  conditioned tokens and the time embedding of this call.
\<close>

theorem output_scale_applied_once:
  assumes "conditional_mlp lib m = Some (mlp_init, mlp_apply)"
    and "scalar_transformer_model lib a = Some (init_fn, model_fn)"
  shows "(fst (mlp_apply ps t x c w) = Inr out \<longrightarrow>
            (\<exists>xc te l pre h proj.
               concat_last x c = Inr xc \<and>
               GaussianFourierEmbedding lib (hidden_dim m) (modules ps) (expand_last t) = Inr te \<and>
               hk_linear ps 0 (hidden_dim m) xc = Inr l \<and>
               binop fadd l te = Inr pre \<and>
               hidden_loop lib m ps te 0 (nat (num_hidden m - 1)) (activation m pre) = Inr h \<and>
               hk_linear ps (Suc (nat (num_hidden m - 1))) (output_dim m) h = Inr proj \<and>
               scale_calls (drop (length w) (snd (mlp_apply ps t x c w))) = [ScaleCall t proj] \<and>
               (case output_scale_fn m of None \<Rightarrow> out = proj | Some g \<Rightarrow> g t proj = Inr out))) \<and>
         (fst (model_fn ps t data data_id cm md em w) = Inr out \<longrightarrow>
            (\<exists>n ids cm' tokens time ctokens h proj.
               unpack3 (shape data) = Inr n \<and>
               reshape_neg1 [n] data_id = Inr ids \<and>
               reshape_neg1 [n] cm = Inr cm' \<and>
               ScalarTokenizer lib (token_dim (rebind_args a)) (num_nodes (rebind_args a)) (modules ps) ids data md =
                 Inr tokens \<and>
               GaussianFourierEmbedding lib (time_embedding_dim (rebind_args a)) (modules ps) (expand_last t) =
                 Inr time \<and>
               conditioning (rebind_args a) ps cm' n tokens = Inr ctokens \<and>
               Transformer lib (num_heads (rebind_args a)) (num_layers (rebind_args a)) (attn_size (rebind_args a))
                 (widening_factor (rebind_args a)) (num_hidden_layers (rebind_args a)) (act (rebind_args a))
                 (skip_connection_attn (rebind_args a)) (skip_connection_mlp (rebind_args a)) (modules ps) ctokens time
                 (case em of Omitted \<Rightarrow> base_mask (rebind_args a) | Given e \<Rightarrow> e) = Inr h \<and>
               hk_linear ps 0 1 h = Inr proj \<and>
               scale_calls (drop (length w) (snd (model_fn ps t data data_id cm md em w))) =
                 [ScaleCall t proj] \<and>
               (case output_scale_fn a of None \<Rightarrow> out = proj | Some g \<Rightarrow> g t proj = Inr out))) \<and>
         (fst (structured_model lib (rebind_args s) ps t data data_id cm md em w) = Inr out \<longrightarrow>
            (\<exists>n ids cm' tokens time ctokens h proj.
               unpack3 (shape data) = Inr n \<and>
               reshape_neg1 [n] data_id = Inr ids \<and>
               reshape_neg1 [n] cm = Inr cm' \<and>
               ScalarTokenizer lib (token_dim (rebind_args s)) (num_nodes (rebind_args s)) (modules ps) ids data md =
                 Inr tokens \<and>
               GaussianFourierEmbedding lib (time_embedding_dim (rebind_args s)) (modules ps) (expand_last t) =
                 Inr time \<and>
               conditioning (rebind_args s) ps cm' n tokens = Inr ctokens \<and>
               Transformer lib (num_heads (rebind_args s)) (num_layers (rebind_args s)) (attn_size (rebind_args s))
                 (widening_factor (rebind_args s)) (num_hidden_layers (rebind_args s)) (act (rebind_args s))
                 (skip_connection_attn (rebind_args s)) (skip_connection_mlp (rebind_args s)) (modules ps) ctokens time
                 (case em of Omitted \<Rightarrow> base_mask (rebind_args s) | Given e \<Rightarrow> e) = Inr h \<and>
               hk_linear ps 0 1 h = Inr proj \<and>
               scale_calls (drop (length w) (snd (structured_model lib (rebind_args s) ps t data data_id cm md em w))) =
                 [ScaleCall t proj] \<and>
               (case output_scale_fn s of None \<Rightarrow> out = proj | Some g \<Rightarrow> g t proj = Inr out)))"
proof (intro conjI impI)
  from assms(1) have 1: "mlp_apply = score_net lib (default_output_scale m)"
    by (simp add: conditional_mlp_eq)
  have nh: "num_hidden (default_output_scale m) = num_hidden m"
    "output_dim (default_output_scale m) = output_dim m"
    "hidden_dim (default_output_scale m) = hidden_dim m"
    "activation (default_output_scale m) = activation m"
    by (simp_all add: default_output_scale_def)
  have hl: "hidden_loop lib (default_output_scale m) ps te j k h = hidden_loop lib m ps te j k h"
    for te j k h
    by (simp add: default_output_scale_def hidden_loop_scale_update)
  assume "fst (mlp_apply ps t x c w) = Inr out"
  then obtain xc te l pre h proj g where
    k: "concat_last x c = Inr xc"
      "GaussianFourierEmbedding lib (hidden_dim m) (modules ps) (expand_last t) = Inr te"
      "hk_linear ps 0 (hidden_dim m) xc = Inr l"
      "binop fadd l te = Inr pre"
      "hidden_loop lib m ps te 0 (nat (num_hidden m - 1)) (activation m pre) = Inr h"
      "hk_linear ps (Suc (nat (num_hidden m - 1))) (output_dim m) h = Inr proj"
    and g: "output_scale_fn (default_output_scale m) = Some g" "g t proj = Inr out"
    and e: "snd (mlp_apply ps t x c w) = w @ [ScaleCall t proj]"
    unfolding 1 by (rule score_net_success) (simp add: nh hl)
  from e have sc: "scale_calls (drop (length w) (snd (mlp_apply ps t x c w))) = [ScaleCall t proj]"
    by (simp add: scale_calls_def)
  from g have d: "(case output_scale_fn m of None \<Rightarrow> out = proj | Some g \<Rightarrow> g t proj = Inr out)"
    by (rule default_output_scale_cases)
  from k sc d show "\<exists>xc te l pre h proj.
      concat_last x c = Inr xc \<and>
      GaussianFourierEmbedding lib (hidden_dim m) (modules ps) (expand_last t) = Inr te \<and>
      hk_linear ps 0 (hidden_dim m) xc = Inr l \<and>
      binop fadd l te = Inr pre \<and>
      hidden_loop lib m ps te 0 (nat (num_hidden m - 1)) (activation m pre) = Inr h \<and>
      hk_linear ps (Suc (nat (num_hidden m - 1))) (output_dim m) h = Inr proj \<and>
      scale_calls (drop (length w) (snd (mlp_apply ps t x c w))) = [ScaleCall t proj] \<and>
      (case output_scale_fn m of None \<Rightarrow> out = proj | Some g \<Rightarrow> g t proj = Inr out)"
    by blast
next
  from assms(2) have 2: "model_fn = model lib (rebind_args a)"
    by (simp add: scalar_transformer_model_eq)
  assume "fst (model_fn ps t data data_id cm md em w) = Inr out"
  then obtain n ids cm' tokens time ctokens h proj g where
    k: "unpack3 (shape data) = Inr n"
      "reshape_neg1 [n] data_id = Inr ids"
      "reshape_neg1 [n] cm = Inr cm'"
      "ScalarTokenizer lib (token_dim (rebind_args a)) (num_nodes (rebind_args a)) (modules ps) ids data md =
        Inr tokens"
      "GaussianFourierEmbedding lib (time_embedding_dim (rebind_args a)) (modules ps) (expand_last t) =
        Inr time"
      "conditioning (rebind_args a) ps cm' n tokens = Inr ctokens"
      "Transformer lib (num_heads (rebind_args a)) (num_layers (rebind_args a)) (attn_size (rebind_args a))
        (widening_factor (rebind_args a)) (num_hidden_layers (rebind_args a)) (act (rebind_args a))
        (skip_connection_attn (rebind_args a)) (skip_connection_mlp (rebind_args a)) (modules ps) ctokens time
        (case em of Omitted \<Rightarrow> base_mask (rebind_args a) | Given e \<Rightarrow> e) = Inr h"
      "hk_linear ps 0 1 h = Inr proj"
    and g: "output_scale_fn (rebind_args a) = Some g" "g t proj = Inr out"
    and sc: "scale_calls (drop (length w) (snd (model_fn ps t data data_id cm md em w))) =
        [ScaleCall t proj]"
    unfolding 2 by (rule model_scale_once)
  from g have d: "(case output_scale_fn a of None \<Rightarrow> out = proj | Some g \<Rightarrow> g t proj = Inr out)"
    unfolding output_scale_fn_rebind by (rule default_output_scale_cases)
  from k sc d show "\<exists>n ids cm' tokens time ctokens h proj.
      unpack3 (shape data) = Inr n \<and>
      reshape_neg1 [n] data_id = Inr ids \<and>
      reshape_neg1 [n] cm = Inr cm' \<and>
      ScalarTokenizer lib (token_dim (rebind_args a)) (num_nodes (rebind_args a)) (modules ps) ids data md =
        Inr tokens \<and>
      GaussianFourierEmbedding lib (time_embedding_dim (rebind_args a)) (modules ps) (expand_last t) =
        Inr time \<and>
      conditioning (rebind_args a) ps cm' n tokens = Inr ctokens \<and>
      Transformer lib (num_heads (rebind_args a)) (num_layers (rebind_args a)) (attn_size (rebind_args a))
        (widening_factor (rebind_args a)) (num_hidden_layers (rebind_args a)) (act (rebind_args a))
        (skip_connection_attn (rebind_args a)) (skip_connection_mlp (rebind_args a)) (modules ps) ctokens time
        (case em of Omitted \<Rightarrow> base_mask (rebind_args a) | Given e \<Rightarrow> e) = Inr h \<and>
      hk_linear ps 0 1 h = Inr proj \<and>
      scale_calls (drop (length w) (snd (model_fn ps t data data_id cm md em w))) =
        [ScaleCall t proj] \<and>
      (case output_scale_fn a of None \<Rightarrow> out = proj | Some g \<Rightarrow> g t proj = Inr out)"
    by blast
next
  assume "fst (structured_model lib (rebind_args s) ps t data data_id cm md em w) = Inr out"
  then obtain n ids cm' tokens time ctokens h proj g where
    k: "unpack3 (shape data) = Inr n"
      "reshape_neg1 [n] data_id = Inr ids"
      "reshape_neg1 [n] cm = Inr cm'"
      "ScalarTokenizer lib (token_dim (rebind_args s)) (num_nodes (rebind_args s)) (modules ps) ids data md =
        Inr tokens"
      "GaussianFourierEmbedding lib (time_embedding_dim (rebind_args s)) (modules ps) (expand_last t) =
        Inr time"
      "conditioning (rebind_args s) ps cm' n tokens = Inr ctokens"
      "Transformer lib (num_heads (rebind_args s)) (num_layers (rebind_args s)) (attn_size (rebind_args s))
        (widening_factor (rebind_args s)) (num_hidden_layers (rebind_args s)) (act (rebind_args s))
        (skip_connection_attn (rebind_args s)) (skip_connection_mlp (rebind_args s)) (modules ps) ctokens time
        (case em of Omitted \<Rightarrow> base_mask (rebind_args s) | Given e \<Rightarrow> e) = Inr h"
      "hk_linear ps 0 1 h = Inr proj"
    and g: "output_scale_fn (rebind_args s) = Some g" "g t proj = Inr out"
    and sc: "scale_calls (drop (length w)
        (snd (structured_model lib (rebind_args s) ps t data data_id cm md em w))) =
        [ScaleCall t proj]"
    by (rule structured_model_scale_once)
  from g have d: "(case output_scale_fn s of None \<Rightarrow> out = proj | Some g \<Rightarrow> g t proj = Inr out)"
    unfolding output_scale_fn_rebind by (rule default_output_scale_cases)
  from k sc d show "\<exists>n ids cm' tokens time ctokens h proj.
      unpack3 (shape data) = Inr n \<and>
      reshape_neg1 [n] data_id = Inr ids \<and>
      reshape_neg1 [n] cm = Inr cm' \<and>
      ScalarTokenizer lib (token_dim (rebind_args s)) (num_nodes (rebind_args s)) (modules ps) ids data md =
        Inr tokens \<and>
      GaussianFourierEmbedding lib (time_embedding_dim (rebind_args s)) (modules ps) (expand_last t) =
        Inr time \<and>
      conditioning (rebind_args s) ps cm' n tokens = Inr ctokens \<and>
      Transformer lib (num_heads (rebind_args s)) (num_layers (rebind_args s)) (attn_size (rebind_args s))
        (widening_factor (rebind_args s)) (num_hidden_layers (rebind_args s)) (act (rebind_args s))
        (skip_connection_attn (rebind_args s)) (skip_connection_mlp (rebind_args s)) (modules ps) ctokens time
        (case em of Omitted \<Rightarrow> base_mask (rebind_args s) | Given e \<Rightarrow> e) = Inr h \<and>
      hk_linear ps 0 1 h = Inr proj \<and>
      scale_calls (drop (length w) (snd (structured_model lib (rebind_args s) ps t data data_id cm md em w))) =
        [ScaleCall t proj] \<and>
      (case output_scale_fn s of None \<Rightarrow> out = proj | Some g \<Rightarrow> g t proj = Inr out)"
    by blast
qed

theorem output_scale_applied_once_witness:
  "fst (score_net ex_lib (default_output_scale ex_mlp_args) ex_params ex_t ex_x ex_context []) =
     Inr (Tensor [1, 1] [Fin 11]) \<and>
   (\<exists>xc te l pre h proj.
      concat_last ex_x ex_context = Inr xc \<and>
      GaussianFourierEmbedding ex_lib (hidden_dim ex_mlp_args) (modules ex_params) (expand_last ex_t) = Inr te \<and>
      hk_linear ex_params 0 (hidden_dim ex_mlp_args) xc = Inr l \<and>
      binop fadd l te = Inr pre \<and>
      hidden_loop ex_lib ex_mlp_args ex_params te 0 (nat (num_hidden ex_mlp_args - 1)) (activation ex_mlp_args pre) = Inr h \<and>
      hk_linear ex_params (Suc (nat (num_hidden ex_mlp_args - 1))) (output_dim ex_mlp_args) h = Inr proj \<and>
      scale_calls (drop (length ([] :: world)) (snd (score_net ex_lib (default_output_scale ex_mlp_args) ex_params ex_t ex_x ex_context []))) = [ScaleCall ex_t proj] \<and>
      Tensor [1, 1] [Fin 11] = proj) \<and>
   fst (model ex_lib (rebind_args ex_args) ex_params ex_t ex_data ex_data_id ex_mask None Omitted []) =
     Inr (Tensor [1, 2, 1] [Fin 3, Fin 9]) \<and>
   (\<exists>n ids cm' tokens time ctokens h proj.
      unpack3 (shape ex_data) = Inr n \<and>
      reshape_neg1 [n] ex_data_id = Inr ids \<and>
      reshape_neg1 [n] ex_mask = Inr cm' \<and>
      ScalarTokenizer ex_lib (token_dim (rebind_args ex_args)) (num_nodes (rebind_args ex_args)) (modules ex_params) ids ex_data None =
        Inr tokens \<and>
      GaussianFourierEmbedding ex_lib (time_embedding_dim (rebind_args ex_args)) (modules ex_params) (expand_last ex_t) =
        Inr time \<and>
      conditioning (rebind_args ex_args) ex_params cm' n tokens = Inr ctokens \<and>
      Transformer ex_lib (num_heads (rebind_args ex_args)) (num_layers (rebind_args ex_args)) (attn_size (rebind_args ex_args))
        (widening_factor (rebind_args ex_args)) (num_hidden_layers (rebind_args ex_args)) (act (rebind_args ex_args))
        (skip_connection_attn (rebind_args ex_args)) (skip_connection_mlp (rebind_args ex_args)) (modules ex_params) ctokens time
        (case Omitted of Omitted \<Rightarrow> base_mask (rebind_args ex_args) | Given e \<Rightarrow> e) = Inr h \<and>
      hk_linear ex_params 0 1 h = Inr proj \<and>
      scale_calls (drop (length ([] :: world)) (snd (model ex_lib (rebind_args ex_args) ex_params ex_t ex_data ex_data_id ex_mask None Omitted []))) =
        [ScaleCall ex_t proj] \<and>
      Tensor [1, 2, 1] [Fin 3, Fin 9] = proj) \<and>
   fst (structured_model ex_lib (rebind_args ex_structured_args) ex_params ex_t ex_data ex_data_id
          ex_mask None Omitted []) = Inr (Tensor [1, 2, 1] [Fin 3, Fin 9]) \<and>
   (\<exists>n ids cm' tokens time ctokens h proj.
      unpack3 (shape ex_data) = Inr n \<and>
      reshape_neg1 [n] ex_data_id = Inr ids \<and>
      reshape_neg1 [n] ex_mask = Inr cm' \<and>
      ScalarTokenizer ex_lib (token_dim (rebind_args ex_structured_args)) (num_nodes (rebind_args ex_structured_args)) (modules ex_params) ids ex_data None =
        Inr tokens \<and>
      GaussianFourierEmbedding ex_lib (time_embedding_dim (rebind_args ex_structured_args)) (modules ex_params) (expand_last ex_t) =
        Inr time \<and>
      conditioning (rebind_args ex_structured_args) ex_params cm' n tokens = Inr ctokens \<and>
      Transformer ex_lib (num_heads (rebind_args ex_structured_args)) (num_layers (rebind_args ex_structured_args)) (attn_size (rebind_args ex_structured_args))
        (widening_factor (rebind_args ex_structured_args)) (num_hidden_layers (rebind_args ex_structured_args)) (act (rebind_args ex_structured_args))
        (skip_connection_attn (rebind_args ex_structured_args)) (skip_connection_mlp (rebind_args ex_structured_args)) (modules ex_params) ctokens time
        (case Omitted of Omitted \<Rightarrow> base_mask (rebind_args ex_structured_args) | Given e \<Rightarrow> e) = Inr h \<and>
      hk_linear ex_params 0 1 h = Inr proj \<and>
      scale_calls (drop (length ([] :: world)) (snd (structured_model ex_lib (rebind_args ex_structured_args) ex_params ex_t ex_data ex_data_id ex_mask None Omitted []))) =
        [ScaleCall ex_t proj] \<and>
      Tensor [1, 2, 1] [Fin 3, Fin 9] = proj)"
proof -
  have 1: "conditional_mlp ex_lib ex_mlp_args =
     Some (InitFn (score_net ex_lib (default_output_scale ex_mlp_args)),
           score_net ex_lib (default_output_scale ex_mlp_args))"
    by (rule conditional_mlp_eq)
  have 2: "scalar_transformer_model ex_lib ex_args =
     Some (InitFn (model ex_lib (rebind_args ex_args)), model ex_lib (rebind_args ex_args))"
    by (rule scalar_transformer_model_eq)
  have a: "fst (score_net ex_lib (default_output_scale ex_mlp_args) ex_params ex_t ex_x ex_context []) =
     Inr (Tensor [1, 1] [Fin 11])"
    by code_simp
  have b: "fst (model ex_lib (rebind_args ex_args) ex_params ex_t ex_data ex_data_id ex_mask None Omitted []) =
     Inr (Tensor [1, 2, 1] [Fin 3, Fin 9])"
    by code_simp
  have c: "fst (structured_model ex_lib (rebind_args ex_structured_args) ex_params ex_t ex_data ex_data_id
          ex_mask None Omitted []) = Inr (Tensor [1, 2, 1] [Fin 3, Fin 9])"
    by code_simp
  have n: "output_scale_fn ex_mlp_args = None" "output_scale_fn ex_args = None"
    "output_scale_fn ex_structured_args = None"
    by (simp_all add: ex_mlp_args_def ex_args_def ex_structured_args_def transformer_args.defs
        structured_args.defs)
  note inst = output_scale_applied_once [OF 1 2, where s = ex_structured_args and w = "[]"
      and ps = ex_params and t = ex_t and x = ex_x and c = ex_context and data = ex_data
      and data_id = ex_data_id and cm = ex_mask and md = None and em = Omitted]
  note instA = inst [where out = "Tensor [1, 1] [Fin 11]", unfolded n option.case]
  note instB = inst [where out = "Tensor [1, 2, 1] [Fin 3, Fin 9]", unfolded n option.case]
  from instA a
  have A: "\<exists>xc te l pre h proj.
      concat_last ex_x ex_context = Inr xc \<and>
      GaussianFourierEmbedding ex_lib (hidden_dim ex_mlp_args) (modules ex_params) (expand_last ex_t) = Inr te \<and>
      hk_linear ex_params 0 (hidden_dim ex_mlp_args) xc = Inr l \<and>
      binop fadd l te = Inr pre \<and>
      hidden_loop ex_lib ex_mlp_args ex_params te 0 (nat (num_hidden ex_mlp_args - 1)) (activation ex_mlp_args pre) = Inr h \<and>
      hk_linear ex_params (Suc (nat (num_hidden ex_mlp_args - 1))) (output_dim ex_mlp_args) h = Inr proj \<and>
      scale_calls (drop (length ([] :: world)) (snd (score_net ex_lib (default_output_scale ex_mlp_args) ex_params ex_t ex_x ex_context []))) = [ScaleCall ex_t proj] \<and>
      Tensor [1, 1] [Fin 11] = proj"
    by blast
  from instB b
  have B: "\<exists>n ids cm' tokens time ctokens h proj.
      unpack3 (shape ex_data) = Inr n \<and>
      reshape_neg1 [n] ex_data_id = Inr ids \<and>
      reshape_neg1 [n] ex_mask = Inr cm' \<and>
      ScalarTokenizer ex_lib (token_dim (rebind_args ex_args)) (num_nodes (rebind_args ex_args)) (modules ex_params) ids ex_data None =
        Inr tokens \<and>
      GaussianFourierEmbedding ex_lib (time_embedding_dim (rebind_args ex_args)) (modules ex_params) (expand_last ex_t) =
        Inr time \<and>
      conditioning (rebind_args ex_args) ex_params cm' n tokens = Inr ctokens \<and>
      Transformer ex_lib (num_heads (rebind_args ex_args)) (num_layers (rebind_args ex_args)) (attn_size (rebind_args ex_args))
        (widening_factor (rebind_args ex_args)) (num_hidden_layers (rebind_args ex_args)) (act (rebind_args ex_args))
        (skip_connection_attn (rebind_args ex_args)) (skip_connection_mlp (rebind_args ex_args)) (modules ex_params) ctokens time
        (case Omitted of Omitted \<Rightarrow> base_mask (rebind_args ex_args) | Given e \<Rightarrow> e) = Inr h \<and>
      hk_linear ex_params 0 1 h = Inr proj \<and>
      scale_calls (drop (length ([] :: world)) (snd (model ex_lib (rebind_args ex_args) ex_params ex_t ex_data ex_data_id ex_mask None Omitted []))) =
        [ScaleCall ex_t proj] \<and>
      Tensor [1, 2, 1] [Fin 3, Fin 9] = proj"
    by blast
  from instB c
  have C: "\<exists>n ids cm' tokens time ctokens h proj.
      unpack3 (shape ex_data) = Inr n \<and>
      reshape_neg1 [n] ex_data_id = Inr ids \<and>
      reshape_neg1 [n] ex_mask = Inr cm' \<and>
      ScalarTokenizer ex_lib (token_dim (rebind_args ex_structured_args)) (num_nodes (rebind_args ex_structured_args)) (modules ex_params) ids ex_data None =
        Inr tokens \<and>
      GaussianFourierEmbedding ex_lib (time_embedding_dim (rebind_args ex_structured_args)) (modules ex_params) (expand_last ex_t) =
        Inr time \<and>
      conditioning (rebind_args ex_structured_args) ex_params cm' n tokens = Inr ctokens \<and>
      Transformer ex_lib (num_heads (rebind_args ex_structured_args)) (num_layers (rebind_args ex_structured_args)) (attn_size (rebind_args ex_structured_args))
        (widening_factor (rebind_args ex_structured_args)) (num_hidden_layers (rebind_args ex_structured_args)) (act (rebind_args ex_structured_args))
        (skip_connection_attn (rebind_args ex_structured_args)) (skip_connection_mlp (rebind_args ex_structured_args)) (modules ex_params) ctokens time
        (case Omitted of Omitted \<Rightarrow> base_mask (rebind_args ex_structured_args) | Given e \<Rightarrow> e) = Inr h \<and>
      hk_linear ex_params 0 1 h = Inr proj \<and>
      scale_calls (drop (length ([] :: world)) (snd (structured_model ex_lib (rebind_args ex_structured_args) ex_params ex_t ex_data ex_data_id ex_mask None Omitted []))) =
        [ScaleCall ex_t proj] \<and>
      Tensor [1, 2, 1] [Fin 3, Fin 9] = proj"
    by blast
  from a b c A B C show ?thesis by (intro conjI)
qed

text \<open>
  C7, as the code has it. When the guarded reshape raises, the handler prints the
  diagnostic and the exception is caught: the guarded block returns normally, nothing
  propagates to the caller, and the call goes on to the forward pass with the tokens the
  tokenizer returned.
\<close>

theorem reshape_failure_swallowed:
  assumes "unpack3 (shape data) = Inr n"
    and "reshape_neg1 [n] data_id = Inr ids"
    and "reshape_neg1 [n] condition_mask = Inr cm"
    and "ScalarTokenizer lib (token_dim a) (num_nodes a) (modules ps) ids data meta_data = Inr tokens"
    and "GaussianFourierEmbedding lib (time_embedding_dim a) (modules ps) (expand_last t) = Inr time"
    and "conditioning a ps cm n tokens = Inr ctokens"
    and "reshape_neg1 [n, token_dim a] tokens = Inl e"
  shows "guarded_reshape tokens n (token_dim a) w =
           (Inr (), w @ [Print [Txt ''Error reshaping tokens: '', Exc e]]) \<and>
         model lib a ps t data data_id condition_mask meta_data edge_mask_arg w =
           forward_pass lib a ps t ctokens time
             (case edge_mask_arg of Omitted \<Rightarrow> base_mask a | Given m \<Rightarrow> m)
             (w @ [Print [Txt ''Model called with data shape: '', Shp (shape data),
                          Txt '', data_id shape: '', Shp (shape data_id),
                          Txt '', condition_mask shape: '', Shp (shape condition_mask)],
                   Print [Txt ''Tokenizer called with data_id shape: '', Shp (shape ids),
                          Txt '' and data shape: '', Shp (shape data)],
                   Print [Txt ''Tokens shape before reshaping: '', Shp (shape tokens)],
                   Print [Txt ''Error reshaping tokens: '', Exc e],
                   Print [Txt ''Time embedding shape: '', Shp (shape time)],
                   Print [Txt ''Conditioned tokens shape: '', Shp (shape ctokens)]])"
  using model_run [OF assms(1-6), of edge_mask_arg w] guarded_reshape_run [of tokens n "token_dim a" w]
  by (simp add: assms(7))

theorem reshape_failure_swallowed_witness:
  "reshape_neg1 [2, token_dim (rebind_args ex_args_width0)] (Tensor [1, 2, 0] [] :: f32 tensor) =
     Inl (ReshapeError [1, 2, 0] [2, 0]) \<and>
   guarded_reshape (Tensor [1, 2, 0] []) 2 (token_dim (rebind_args ex_args_width0)) [] =
     (Inr (), [Print [Txt ''Error reshaping tokens: '', Exc (ReshapeError [1, 2, 0] [2, 0])]]) \<and>
   fst (model ex_lib (rebind_args ex_args_width0) ex_params_width0 ex_t ex_data ex_data_id ex_mask
          None Omitted []) =
     fst (forward_pass ex_lib (rebind_args ex_args_width0) ex_params_width0 ex_t
            (Tensor [1, 2, 1] [Fin 0, Fin 5]) (Tensor [1, 2] [Fin 0, Fin 0]) None [])"
proof -
  have 1: "unpack3 (shape ex_data) = Inr 2" by code_simp
  have 2: "reshape_neg1 [2] ex_data_id = Inr (Tensor [1, 2] [0, 1])" by code_simp
  have 3: "reshape_neg1 [2] ex_mask = Inr (Tensor [1, 2] [Fin 0, Fin 1])" by code_simp
  have 4: "ScalarTokenizer ex_lib (token_dim (rebind_args ex_args_width0))
             (num_nodes (rebind_args ex_args_width0)) (modules ex_params_width0)
             (Tensor [1, 2] [0, 1]) ex_data None = Inr (Tensor [1, 2, 0] [])"
    by code_simp
  have 5: "GaussianFourierEmbedding ex_lib (time_embedding_dim (rebind_args ex_args_width0))
             (modules ex_params_width0) (expand_last ex_t) = Inr (Tensor [1, 2] [Fin 0, Fin 0])"
    by code_simp
  have 6: "conditioning (rebind_args ex_args_width0) ex_params_width0 (Tensor [1, 2] [Fin 0, Fin 1]) 2
             (Tensor [1, 2, 0] []) = Inr (Tensor [1, 2, 1] [Fin 0, Fin 5])"
    by code_simp
  have 7: "reshape_neg1 [2, token_dim (rebind_args ex_args_width0)] (Tensor [1, 2, 0] [] :: f32 tensor) =
             Inl (ReshapeError [1, 2, 0] [2, 0])"
    by code_simp
  have 8: "base_mask (rebind_args ex_args_width0) = None" by code_simp
  from reshape_failure_swallowed [OF 1 2 3 4 5 6 7, where edge_mask_arg = Omitted and w = "[]"] 7 8
  show ?thesis
    by (simp add: logs_run)
qed

text \<open>
  C7 as stated fails: with tokens of width zero the guarded reshape raises, the diagnostic
  is printed, and the call returns a score instead of the exception.
\<close>

theorem reshape_failure_propagates_counterexample:
  "model ex_lib (rebind_args ex_args_width0) ex_params_width0 ex_t ex_data ex_data_id ex_mask None
     Omitted [] =
   (Inr (Tensor [1, 2, 1] [Fin 0, Fin 5]),
    [Print [Txt ''Model called with data shape: '', Shp [1, 2, 1],
            Txt '', data_id shape: '', Shp [2], Txt '', condition_mask shape: '', Shp [1, 2]],
     Print [Txt ''Tokenizer called with data_id shape: '', Shp [1, 2],
            Txt '' and data shape: '', Shp [1, 2, 1]],
     Print [Txt ''Tokens shape before reshaping: '', Shp [1, 2, 0]],
     Print [Txt ''Error reshaping tokens: '', Exc (ReshapeError [1, 2, 0] [2, 0])],
     Print [Txt ''Time embedding shape: '', Shp [1, 2]],
     Print [Txt ''Conditioned tokens shape: '', Shp [1, 2, 1]],
     Print [Txt ''Transformer output shape: '', Shp [1, 2, 1]],
     ScaleCall (Tensor [1] [Fin 1]) (Tensor [1, 2, 1] [Fin 0, Fin 5]),
     Print [Txt ''Final output shape: '', Shp [1, 2, 1]]])"
  by code_simp

text \<open>
  C8, as the code has it. For \<open>num_hidden\<close> of at least one, the apply function of
  \<open>conditional_mlp\<close> returns what the described network computes when the first hidden
  layer is left without layer normalisation, passed through the scaling function: the
  input and context concatenated, \<open>num_hidden\<close> dense layers with the same time embedding
  added before each activation, a layer normalisation after every activation but the
  first when \<open>layer_norm\<close> is set, and a dense layer to \<open>output_dim\<close>.
\<close>

theorem mlp_structure:
  assumes "conditional_mlp lib a = Some (init_fn, apply_fn)" and "1 \<le> num_hidden a"
  shows "fst (apply_fn ps t x ctx w) =
           ebind (amended_score_net lib a ps t x ctx)
             (\<lambda>out. case output_scale_fn a of None \<Rightarrow> Inr out | Some g \<Rightarrow> g t out)"
proof -
  from assms(1) have 1: "apply_fn = score_net lib (default_output_scale a)"
    by (simp add: conditional_mlp_eq)
  have d: "num_hidden (default_output_scale a) = num_hidden a"
    "hidden_dim (default_output_scale a) = hidden_dim a"
    "output_dim (default_output_scale a) = output_dim a"
    by (simp_all add: default_output_scale_def)
  have l: "hidden_loop lib (default_output_scale a) ps te j n h = hidden_loop lib a ps te j n h"
    for te j n h
    by (simp add: default_output_scale_def hidden_loop_scale_update)
  show ?thesis
    unfolding 1 score_net_outcome amended_score_net_eq [OF assms(2)] d l
    by (simp add: ebind_def default_output_scale_def default_scale_def split: sum.splits option.splits)
qed

theorem mlp_structure_witness:
  "conditional_mlp ex_lib ex_mlp_args2 =
     Some (InitFn (score_net ex_lib (default_output_scale ex_mlp_args2)),
           score_net ex_lib (default_output_scale ex_mlp_args2)) \<and>
   1 \<le> num_hidden ex_mlp_args2 \<and>
   fst (score_net ex_lib (default_output_scale ex_mlp_args2) ex_params_ln ex_t ex_x ex_context []) =
     Inr (Tensor [1, 1] [Fin 69]) \<and>
   amended_score_net ex_lib ex_mlp_args2 ex_params_ln ex_t ex_x ex_context = Inr (Tensor [1, 1] [Fin 69])"
proof -
  have 1: "conditional_mlp ex_lib ex_mlp_args2 =
     Some (InitFn (score_net ex_lib (default_output_scale ex_mlp_args2)),
           score_net ex_lib (default_output_scale ex_mlp_args2))"
    by (rule conditional_mlp_eq)
  have 2: "1 \<le> num_hidden ex_mlp_args2" by (simp add: ex_mlp_args2_def)
  have 3: "amended_score_net ex_lib ex_mlp_args2 ex_params_ln ex_t ex_x ex_context =
     Inr (Tensor [1, 1] [Fin 69])"
    by code_simp
  have 4: "output_scale_fn ex_mlp_args2 = None" by (simp add: ex_mlp_args2_def ex_mlp_args_def)
  from mlp_structure [OF 1 2, of ex_params_ln ex_t ex_x ex_context "[]"]
  have "fst (score_net ex_lib (default_output_scale ex_mlp_args2) ex_params_ln ex_t ex_x ex_context []) =
     Inr (Tensor [1, 1] [Fin 69])"
    by (simp add: 3 4 ebind_def del: One_nat_def)
  with 1 2 3 show ?thesis by (intro conjI)
qed

text \<open>
  C8 as stated fails: with \<open>layer_norm\<close> set and one hidden layer the code applies no
  layer normalisation at all. With normalisation parameters present the described
  network returns another value; with the parameters the code itself creates, which hold
  no normalisation layer, the described network cannot run.
\<close>

theorem mlp_layer_norm_counterexample:
  "layer_norm ex_mlp_args \<and> num_hidden ex_mlp_args = 1 \<and>
   fst (score_net ex_lib (default_output_scale ex_mlp_args) ex_params_ln ex_t ex_x ex_context []) =
     Inr (Tensor [1, 1] [Fin 11]) \<and>
   stated_score_net ex_lib ex_mlp_args ex_params_ln ex_t ex_x ex_context = Inr (Tensor [1, 1] [Fin 23]) \<and>
   fst (score_net ex_lib (default_output_scale ex_mlp_args) ex_params ex_t ex_x ex_context []) =
     Inr (Tensor [1, 1] [Fin 11]) \<and>
   stated_score_net ex_lib ex_mlp_args ex_params ex_t ex_x ex_context =
     Inl (MissingParameter (LayerNormScale 0))"
  by code_simp

text \<open>
  C9. For each of the modes \<open>concat\<close>, \<open>add\<close> and \<open>none\<close> the tokens given to the transformer
  have width \<open>token_dim + condition_token_dim\<close>, in terms of the factory's arguments: the
  factory builds the tokenizer with \<open>token_dim\<close> for \<open>concat\<close> and with the sum for \<open>add\<close> and
  \<open>none\<close>, and \<open>concat\<close> appends \<open>condition_token_dim\<close> entries. The tokenizer is assumed
  to return tokens of the width it was built with.
\<close>

theorem transformer_token_width:
  assumes "tokenizer_width_ok lib"
    and "scalar_transformer_model lib a = Some (init_fn, model_fn)"
    and "condition_mode a \<in> {''concat'', ''add'', ''none''}"
    and "condition_mode s \<in> {''concat'', ''add'', ''none''}"
  shows "token_dim (rebind_args a) =
           (if condition_mode a = ''concat'' then token_dim a
            else token_dim a + condition_token_dim a) \<and>
         token_dim (rebind_args s) =
           (if condition_mode s = ''concat'' then token_dim s
            else token_dim s + condition_token_dim s) \<and>
         (fst (model_fn ps t data data_id cm md em w) = Inr out \<longrightarrow>
            (\<exists>n ids cm' tokens ctokens time h.
               ScalarTokenizer lib (token_dim (rebind_args a)) (num_nodes (rebind_args a)) (modules ps)
                 ids data md = Inr tokens \<and>
               conditioning (rebind_args a) ps cm' n tokens = Inr ctokens \<and>
               Transformer lib (num_heads (rebind_args a)) (num_layers (rebind_args a))
                 (attn_size (rebind_args a)) (widening_factor (rebind_args a))
                 (num_hidden_layers (rebind_args a)) (act (rebind_args a))
                 (skip_connection_attn (rebind_args a)) (skip_connection_mlp (rebind_args a))
                 (modules ps) ctokens time
                 (case em of Omitted \<Rightarrow> base_mask (rebind_args a) | Given m \<Rightarrow> m) = Inr h \<and>
               last (shape ctokens) = token_dim a + condition_token_dim a)) \<and>
         (fst (structured_model lib (rebind_args s) ps t data data_id cm md em w) = Inr out \<longrightarrow>
            (\<exists>n ids cm' tokens ctokens time h.
               ScalarTokenizer lib (token_dim (rebind_args s)) (num_nodes (rebind_args s)) (modules ps)
                 ids data md = Inr tokens \<and>
               conditioning (rebind_args s) ps cm' n tokens = Inr ctokens \<and>
               Transformer lib (num_heads (rebind_args s)) (num_layers (rebind_args s))
                 (attn_size (rebind_args s)) (widening_factor (rebind_args s))
                 (num_hidden_layers (rebind_args s)) (act (rebind_args s))
                 (skip_connection_attn (rebind_args s)) (skip_connection_mlp (rebind_args s))
                 (modules ps) ctokens time
                 (case em of Omitted \<Rightarrow> base_mask (rebind_args s) | Given m \<Rightarrow> m) = Inr h \<and>
               last (shape ctokens) = token_dim s + condition_token_dim s))"
proof (intro conjI impI)
  show "token_dim (rebind_args a) =
           (if condition_mode a = ''concat'' then token_dim a
            else token_dim a + condition_token_dim a)"
    using assms(3) by (auto simp: rebind_dims)
  show "token_dim (rebind_args s) =
           (if condition_mode s = ''concat'' then token_dim s
            else token_dim s + condition_token_dim s)"
    using assms(4) by (auto simp: rebind_dims)
next
  from assms(2) have 2: "model_fn = model lib (rebind_args a)"
    by (simp add: scalar_transformer_model_eq)
  assume "fst (model_fn ps t data data_id cm md em w) = Inr out"
  then obtain n ids cm' tokens time ctokens h where
    tk: "ScalarTokenizer lib (token_dim (rebind_args a)) (num_nodes (rebind_args a)) (modules ps)
           ids data md = Inr tokens"
    and c: "conditioning (rebind_args a) ps cm' n tokens = Inr ctokens"
    and h: "Transformer lib (num_heads (rebind_args a)) (num_layers (rebind_args a))
                 (attn_size (rebind_args a)) (widening_factor (rebind_args a))
                 (num_hidden_layers (rebind_args a)) (act (rebind_args a))
                 (skip_connection_attn (rebind_args a)) (skip_connection_mlp (rebind_args a))
                 (modules ps) ctokens time
                 (case em of Omitted \<Rightarrow> base_mask (rebind_args a) | Given m \<Rightarrow> m) = Inr h"
    unfolding 2 by (rule model_transformer_input)
  from rebound_width [OF assms(3,1) tk c] h tk c
  show "\<exists>n ids cm' tokens ctokens time h.
               ScalarTokenizer lib (token_dim (rebind_args a)) (num_nodes (rebind_args a)) (modules ps)
                 ids data md = Inr tokens \<and>
               conditioning (rebind_args a) ps cm' n tokens = Inr ctokens \<and>
               Transformer lib (num_heads (rebind_args a)) (num_layers (rebind_args a))
                 (attn_size (rebind_args a)) (widening_factor (rebind_args a))
                 (num_hidden_layers (rebind_args a)) (act (rebind_args a))
                 (skip_connection_attn (rebind_args a)) (skip_connection_mlp (rebind_args a))
                 (modules ps) ctokens time
                 (case em of Omitted \<Rightarrow> base_mask (rebind_args a) | Given m \<Rightarrow> m) = Inr h \<and>
               last (shape ctokens) = token_dim a + condition_token_dim a"
    by blast
next
  assume "fst (structured_model lib (rebind_args s) ps t data data_id cm md em w) = Inr out"
  then obtain n ids cm' tokens time ctokens h where
    tk: "ScalarTokenizer lib (token_dim (rebind_args s)) (num_nodes (rebind_args s)) (modules ps)
           ids data md = Inr tokens"
    and c: "conditioning (rebind_args s) ps cm' n tokens = Inr ctokens"
    and h: "Transformer lib (num_heads (rebind_args s)) (num_layers (rebind_args s))
                 (attn_size (rebind_args s)) (widening_factor (rebind_args s))
                 (num_hidden_layers (rebind_args s)) (act (rebind_args s))
                 (skip_connection_attn (rebind_args s)) (skip_connection_mlp (rebind_args s))
                 (modules ps) ctokens time
                 (case em of Omitted \<Rightarrow> base_mask (rebind_args s) | Given m \<Rightarrow> m) = Inr h"
    by (rule structured_model_transformer_input)
  from rebound_width [OF assms(4,1) tk c] h tk c
  show "\<exists>n ids cm' tokens ctokens time h.
               ScalarTokenizer lib (token_dim (rebind_args s)) (num_nodes (rebind_args s)) (modules ps)
                 ids data md = Inr tokens \<and>
               conditioning (rebind_args s) ps cm' n tokens = Inr ctokens \<and>
               Transformer lib (num_heads (rebind_args s)) (num_layers (rebind_args s))
                 (attn_size (rebind_args s)) (widening_factor (rebind_args s))
                 (num_hidden_layers (rebind_args s)) (act (rebind_args s))
                 (skip_connection_attn (rebind_args s)) (skip_connection_mlp (rebind_args s))
                 (modules ps) ctokens time
                 (case em of Omitted \<Rightarrow> base_mask (rebind_args s) | Given m \<Rightarrow> m) = Inr h \<and>
               last (shape ctokens) = token_dim s + condition_token_dim s"
    by blast
qed


theorem transformer_token_width_witness:
  "tokenizer_width_ok ex_lib \<and>
   scalar_transformer_model ex_lib ex_args =
     Some (InitFn (model ex_lib (rebind_args ex_args)), model ex_lib (rebind_args ex_args)) \<and>
   condition_mode ex_args \<in> {''concat'', ''add'', ''none''} \<and>
   condition_mode ex_structured_args_none \<in> {''concat'', ''add'', ''none''} \<and>
   token_dim ex_args = 1 \<and> condition_token_dim ex_args = 1 \<and>
   token_dim ex_structured_args_none = 1 \<and> condition_token_dim ex_structured_args_none = 1 \<and>
   fst (model ex_lib (rebind_args ex_args) ex_params ex_t ex_data ex_data_id ex_mask None Omitted []) =
     Inr (Tensor [1, 2, 1] [Fin 3, Fin 9]) \<and>
   (\<exists>n ids cm' tokens ctokens time h.
      ScalarTokenizer ex_lib (token_dim (rebind_args ex_args)) (num_nodes (rebind_args ex_args)) (modules ex_params)
        ids ex_data None = Inr tokens \<and>
      conditioning (rebind_args ex_args) ex_params cm' n tokens = Inr ctokens \<and>
      Transformer ex_lib (num_heads (rebind_args ex_args)) (num_layers (rebind_args ex_args))
        (attn_size (rebind_args ex_args)) (widening_factor (rebind_args ex_args))
        (num_hidden_layers (rebind_args ex_args)) (act (rebind_args ex_args))
        (skip_connection_attn (rebind_args ex_args)) (skip_connection_mlp (rebind_args ex_args))
        (modules ex_params) ctokens time
        (case Omitted of Omitted \<Rightarrow> base_mask (rebind_args ex_args) | Given m \<Rightarrow> m) = Inr h \<and>
      last (shape ctokens) = token_dim ex_args + condition_token_dim ex_args) \<and>
   fst (structured_model ex_lib (rebind_args ex_structured_args_none) ex_params ex_t ex_data ex_data_id
          ex_mask None Omitted []) = Inr (Tensor [1, 2, 1] [Fin 6, Fin 8]) \<and>
   (\<exists>n ids cm' tokens ctokens time h.
      ScalarTokenizer ex_lib (token_dim (rebind_args ex_structured_args_none)) (num_nodes (rebind_args ex_structured_args_none)) (modules ex_params)
        ids ex_data None = Inr tokens \<and>
      conditioning (rebind_args ex_structured_args_none) ex_params cm' n tokens = Inr ctokens \<and>
      Transformer ex_lib (num_heads (rebind_args ex_structured_args_none))
        (num_layers (rebind_args ex_structured_args_none))
        (attn_size (rebind_args ex_structured_args_none))
        (widening_factor (rebind_args ex_structured_args_none))
        (num_hidden_layers (rebind_args ex_structured_args_none))
        (act (rebind_args ex_structured_args_none))
        (skip_connection_attn (rebind_args ex_structured_args_none))
        (skip_connection_mlp (rebind_args ex_structured_args_none))
        (modules ex_params) ctokens time
        (case Omitted of Omitted \<Rightarrow> base_mask (rebind_args ex_structured_args_none) | Given m \<Rightarrow> m) =
        Inr h \<and>
      last (shape ctokens) =
        token_dim ex_structured_args_none + condition_token_dim ex_structured_args_none)"
proof -
  have 2: "scalar_transformer_model ex_lib ex_args =
     Some (InitFn (model ex_lib (rebind_args ex_args)), model ex_lib (rebind_args ex_args))"
    by (rule scalar_transformer_model_eq)
  have 3: "condition_mode ex_args \<in> {''concat'', ''add'', ''none''}"
    by (simp add: ex_args_def)
  have 4: "condition_mode ex_structured_args_none \<in> {''concat'', ''add'', ''none''}"
    by (simp add: ex_structured_args_none_def)
  have d: "token_dim ex_args = 1" "condition_token_dim ex_args = 1"
    "condition_mode ex_args = ''concat''"
    "token_dim ex_structured_args_none = 1" "condition_token_dim ex_structured_args_none = 1"
    "condition_mode ex_structured_args_none = ''none''"
    by (simp_all add: ex_args_def ex_structured_args_none_def ex_structured_args_def
        transformer_args.defs structured_args.defs)
  have a: "fst (model ex_lib (rebind_args ex_args) ex_params ex_t ex_data ex_data_id ex_mask None
             Omitted []) = Inr (Tensor [1, 2, 1] [Fin 3, Fin 9])"
    by code_simp
  have b: "fst (structured_model ex_lib (rebind_args ex_structured_args_none) ex_params ex_t ex_data
             ex_data_id ex_mask None Omitted []) = Inr (Tensor [1, 2, 1] [Fin 6, Fin 8])"
    by code_simp
  note inst = transformer_token_width [OF ex_lib_tokenizer_width_ok 2 3 4, where ps = ex_params
      and t = ex_t and data = ex_data and data_id = ex_data_id and cm = ex_mask and md = None
      and em = Omitted and w = "[]"]
  from inst [where out = "Tensor [1, 2, 1] [Fin 3, Fin 9]"] a
  have A: "\<exists>n ids cm' tokens ctokens time h.
      ScalarTokenizer ex_lib (token_dim (rebind_args ex_args)) (num_nodes (rebind_args ex_args)) (modules ex_params)
        ids ex_data None = Inr tokens \<and>
      conditioning (rebind_args ex_args) ex_params cm' n tokens = Inr ctokens \<and>
      Transformer ex_lib (num_heads (rebind_args ex_args)) (num_layers (rebind_args ex_args))
        (attn_size (rebind_args ex_args)) (widening_factor (rebind_args ex_args))
        (num_hidden_layers (rebind_args ex_args)) (act (rebind_args ex_args))
        (skip_connection_attn (rebind_args ex_args)) (skip_connection_mlp (rebind_args ex_args))
        (modules ex_params) ctokens time
        (case Omitted of Omitted \<Rightarrow> base_mask (rebind_args ex_args) | Given m \<Rightarrow> m) = Inr h \<and>
      last (shape ctokens) = token_dim ex_args + condition_token_dim ex_args"
    by blast
  from inst [where out = "Tensor [1, 2, 1] [Fin 6, Fin 8]"] b
  have B: "\<exists>n ids cm' tokens ctokens time h.
      ScalarTokenizer ex_lib (token_dim (rebind_args ex_structured_args_none)) (num_nodes (rebind_args ex_structured_args_none)) (modules ex_params)
        ids ex_data None = Inr tokens \<and>
      conditioning (rebind_args ex_structured_args_none) ex_params cm' n tokens = Inr ctokens \<and>
      Transformer ex_lib (num_heads (rebind_args ex_structured_args_none))
        (num_layers (rebind_args ex_structured_args_none))
        (attn_size (rebind_args ex_structured_args_none))
        (widening_factor (rebind_args ex_structured_args_none))
        (num_hidden_layers (rebind_args ex_structured_args_none))
        (act (rebind_args ex_structured_args_none))
        (skip_connection_attn (rebind_args ex_structured_args_none))
        (skip_connection_mlp (rebind_args ex_structured_args_none))
        (modules ex_params) ctokens time
        (case Omitted of Omitted \<Rightarrow> base_mask (rebind_args ex_structured_args_none) | Given m \<Rightarrow> m) =
        Inr h \<and>
      last (shape ctokens) =
        token_dim ex_structured_args_none + condition_token_dim ex_structured_args_none"
    by blast
  from ex_lib_tokenizer_width_ok 2 3 4 d(1,2,4,5) a A b B show ?thesis
    by (intro conjI)
qed

text \<open>
  C10. The result of the guarded reshape is never used: the apply function of
  \<open>scalar_transformer_model\<close> returns what it would return with the guarded reshape taken
  out, whether the reshape succeeds or not.
\<close>

theorem reshaped_tokens_unused:
  "fst (model lib a ps t data data_id cm md em w) =
   fst (model_without_reshape lib a ps t data data_id cm md em w)"
  using outcome_model_without [of lib a ps t data data_id cm md em]
  by (simp add: logs_run)

theorem reshaped_tokens_unused_witness:
  "fst (model ex_lib (rebind_args ex_args) ex_params ex_t ex_data ex_data_id ex_mask None Omitted []) =
     Inr (Tensor [1, 2, 1] [Fin 3, Fin 9]) \<and>
   fst (model_without_reshape ex_lib (rebind_args ex_args) ex_params ex_t ex_data ex_data_id ex_mask
          None Omitted []) = Inr (Tensor [1, 2, 1] [Fin 3, Fin 9])"
proof -
  have "fst (model_without_reshape ex_lib (rebind_args ex_args) ex_params ex_t ex_data ex_data_id ex_mask
          None Omitted []) = Inr (Tensor [1, 2, 1] [Fin 3, Fin 9])"
    by code_simp
  with reshaped_tokens_unused [of ex_lib "rebind_args ex_args" ex_params ex_t ex_data ex_data_id ex_mask
          None Omitted "[]"]
  show ?thesis by simp
qed

end
